theory Spec2Isabelle
  imports Main "HOL-Library.Word"
begin

section \<open>Strings and the metadata carrier\<close>

text \<open>
  Go's \<open>strings.Split(s, sep)\<close> for the one-byte separator the source uses
  (\<open>":"\<close>): the pieces between the separators, one piece more than there are
  separators, so a string without separator gives the one-element list.
\<close>

fun strings_Split :: "string \<Rightarrow> char \<Rightarrow> string list" where
  "strings_Split [] c = [[]]"
| "strings_Split (x # xs) c =
     (if x = c then [] # strings_Split xs c
      else (case strings_Split xs c of
              [] \<Rightarrow> [[x]]
            | p # ps \<Rightarrow> (x # p) # ps))"

text \<open>Go's \<open>strings.Join(elems, sep)\<close>.\<close>

fun strings_Join :: "string list \<Rightarrow> string \<Rightarrow> string" where
  "strings_Join [] sep = []"
| "strings_Join [x] sep = x"
| "strings_Join (x # y # ys) sep = x @ sep @ strings_Join (y # ys) sep"

text \<open>
  \<open>strings.ToLower\<close> on the ASCII letters (header names of the carrier are ASCII).
\<close>

definition toLowerChar :: "char \<Rightarrow> char" where
  "toLowerChar c =
     (let n = (of_char c :: nat)
      in if 65 \<le> n \<and> n \<le> 90 then char_of (n + 32) else c)"

definition strings_ToLower :: "string \<Rightarrow> string" where
  "strings_ToLower s = map toLowerChar s"

text \<open>
  \<open>metadata.MD\<close> is \<open>map[string][]string\<close>; \<open>md.Get(k)\<close> lowers the key
  and reads the map, a missing key giving the empty slice.
\<close>

type_synonym MD = "(string \<times> string list) list"

definition md_Get :: "MD \<Rightarrow> string \<Rightarrow> string list" where
  "md_Get md k = (case map_of md (strings_ToLower k) of None \<Rightarrow> [] | Some vs \<Rightarrow> vs)"

section \<open>The call context\<close>

text \<open>
  \<open>peer.Peer\<close>: \<open>Addr\<close> is a \<open>net.Addr\<close> interface value, \<open>None\<close> when it is
  nil and otherwise the text \<open>Addr.String()\<close> renders.
\<close>

record Peer =
  Addr :: "string option"

text \<open>
  What the interceptors read from and write to a \<open>context.Context\<close>: the deadline
  (a time in nanoseconds), the incoming metadata (\<open>metadata.FromIncomingContext\<close>,
  \<open>None\<close> when the context has none), the key/value pairs appended for the outgoing
  call in the order of appending (\<open>metadata.AppendToOutgoingContext\<close>), the values
  stored under registered custom keys (\<open>transport.WithValue\<close>), the transport peer
  (\<open>peer.FromContext\<close>), the trace id of the active span, and whether a server
  transport stream is attached (what \<open>grpc.SetHeader\<close> needs).
\<close>

record Context =
  deadline :: "int option"
  incoming :: "MD option"
  outgoing :: "(string \<times> string) list"
  vals :: "(string \<times> string) list"
  peer :: "Peer option"
  span :: "string option"
  stream :: bool

definition background :: Context where
  "background = \<lparr>deadline = None, incoming = None, outgoing = [], vals = [],
     peer = None, span = None, stream = False\<rparr>"

text \<open>
  Modelled from the spec: \<open>tools.GrpcHeaderValue\<close> (package internal/tools, not among
  the sources) reads a header of the incoming Call Context Carrier, a mapping from a key to
  one or more string values: the empty key, a context without carrier and an absent header
  give the empty string, the values of a header are joined with \<open>";"\<close>.
\<close>

definition GrpcHeaderValue :: "Context \<Rightarrow> string \<Rightarrow> string" where
  "GrpcHeaderValue ctx key =
     (if key = [] then []
      else (case incoming ctx of
              None \<Rightarrow> []
            | Some md \<Rightarrow> strings_Join (md_Get md key) '';''))"

section \<open>Peer name, peer address and application label (server)\<close>

definition extractApp :: "Context \<Rightarrow> string" where
  "extractApp ctx =
     (case incoming ctx of
        Some md \<Rightarrow> strings_Join (md_Get md ''app'') '',''
      | None \<Rightarrow> ''unknown'')"

definition getPeerName :: "Context \<Rightarrow> string" where
  "getPeerName ctx = GrpcHeaderValue ctx ''app''"

definition getPeerIP :: "Context \<Rightarrow> string" where
  "getPeerIP ctx =
     (let clientIP = GrpcHeaderValue ctx ''client-ip''
      in if clientIP \<noteq> [] then clientIP
         else (case peer ctx of
                 None \<Rightarrow> []
               | Some pr \<Rightarrow>
                   (case Addr pr of
                      None \<Rightarrow> []
                    | Some a \<Rightarrow>
                        (let addSlice = strings_Split a CHR '':''
                         in if length addSlice > 1 then hd addSlice else []))))"

section \<open>Errors, status and recovered panics\<close>

text \<open>\<open>codes.Code\<close> is a \<open>uint32\<close>.\<close>

type_synonym Code = "32 word"

definition codes_OK :: Code where
  "codes_OK = 0"

definition codes_Unknown :: Code where
  "codes_Unknown = 2"

definition codes_Internal :: Code where
  "codes_Internal = 13"

text \<open>
  A Go \<open>error\<close> is an interface value: what the interceptors use of it is its
  \<open>Error()\<close> text and, when it implements \<open>GRPCStatus()\<close>, the status (code and
  message) it carries. The nil error is \<open>None\<close> of \<open>error option\<close>.
\<close>

datatype error = GoError (GRPCStatus: "(Code \<times> string) option") (ErrorText: string)

text \<open>
  \<open>status.Convert(err)\<close>: the OK status for nil, the carried status of a status
  error, and \<open>Unknown\<close> with the error's text for any other error. Returned as the
  pair of \<open>Code()\<close> and \<open>Message()\<close>.
\<close>

definition status_Convert :: "error option \<Rightarrow> Code \<times> string" where
  "status_Convert err =
     (case err of
        None \<Rightarrow> (codes_OK, [])
      | Some e \<Rightarrow> (case GRPCStatus e of Some s \<Rightarrow> s | None \<Rightarrow> (codes_Unknown, ErrorText e)))"

definition status_Code :: "error option \<Rightarrow> Code" where
  "status_Code err = fst (status_Convert err)"

text \<open>\<open>strconv.Itoa\<close>: the decimal digits, with a minus sign for a negative number.\<close>

fun natToString :: "nat \<Rightarrow> string" where
  "natToString n =
     (if n < 10 then [char_of (48 + n)]
      else natToString (n div 10) @ [char_of (48 + n mod 10)])"

declare natToString.simps [simp del]

definition strconv_Itoa :: "int \<Rightarrow> string" where
  "strconv_Itoa i = (if i < 0 then CHR ''-'' # natToString (nat (- i)) else natToString (nat i))"

text \<open>
  The number a decimal text denotes (what a reader of the header parses back); used only
  to say that a rendered number is numerically equal to a value.
\<close>

definition parseNat :: "string \<Rightarrow> nat" where
  "parseNat s = foldl (\<lambda>acc c. 10 * acc + (of_char c - 48)) 0 s"

definition decimalValue :: "string \<Rightarrow> int" where
  "decimalValue s =
     (case s of
        [] \<Rightarrow> 0
      | c # r \<Rightarrow> if c = CHR ''-'' then - int (parseNat r) else int (parseNat s))"

text \<open>
  The value a handler panics with, as \<open>recover()\<close> returns it: an error, or a value of
  another type, rendered by the verb \<open>%v\<close>. (\<open>recover()\<close> is not nil while a
  panic is in flight: \<open>panic(nil)\<close> carries a runtime error.)
\<close>

datatype Value = VString string | VInt int | VBool bool

datatype Recovered = RecError error | RecValue Value

fun fmt_Sprint_v :: "Value \<Rightarrow> string" where
  "fmt_Sprint_v (VString s) = s"
| "fmt_Sprint_v (VInt i) = strconv_Itoa i"
| "fmt_Sprint_v (VBool b) = (if b then ''true'' else ''false'')"

text \<open>\<open>fmt.Errorf("%v", rec)\<close>: a plain error whose text is the rendering of \<open>rec\<close>.\<close>

definition fmt_Errorf_v :: "Value \<Rightarrow> error" where
  "fmt_Errorf_v v = GoError None (fmt_Sprint_v v)"

text \<open>A call either returns or panics; no client interceptor recovers a panic.\<close>

datatype 'a Outcome = Return 'a | Panic Recovered

section \<open>Configuration, collaborators and the observable world\<close>

text \<open>The options of \<open>Config\<close> that the interceptors read; durations in nanoseconds.\<close>

record Config =
  EnableAccessInterceptor :: bool
  EnableAccessInterceptorReq :: bool
  EnableAccessInterceptorRes :: bool
  EnableTraceInterceptor :: bool
  EnableCPUUsage :: bool
  SlowLogThreshold :: int

text \<open>
  What the interceptors take from packages outside the sources, as parameters:
  \<open>ecode.GrpcToHTTPStatusCode\<close>, \<open>http.StatusText\<close>,
  \<open>opentracing.IsGlobalTracerRegistered()\<close>, the trace id the tracer gives a span
  started from a context and the header pairs it injects for it, \<open>eapp.Name()\<close>,
  the \<open>Usage\<close> field (a \<open>uint64\<close>) that \<open>xcpu.ReadStat\<close> fills, zero when no
  sample is available, the text of the goroutine dump of \<open>runtime.Stack\<close> after
  its opening word, and the text that the verb \<open>%v\<close> renders for a context.
\<close>

record Deps =
  GrpcToHTTPStatusCode :: "Code \<Rightarrow> int"
  StatusText :: "int \<Rightarrow> string"
  IsGlobalTracerRegistered :: bool
  traceIDFor :: "Context \<Rightarrow> string"
  traceCarrier :: "string \<Rightarrow> (string \<times> string) list"
  eapp_Name :: string
  Usage :: "64 word"
  stackDump :: string
  fmt_Context :: "Context \<Rightarrow> string"

definition StatusInternalServerError :: int where
  "StatusInternalServerError = 500"

text \<open>Structured log fields (\<open>elog.Field\<close>) and entries.\<close>

datatype Level = InfoLevel | WarnLevel | ErrorLevel

datatype AnyValue = RawMessage string | ReqMap string "MD option" | ResMap string

datatype Field =
    FieldType string
  | FieldCode "32 word"
  | FieldOriginCode "32 word"
  | FieldDescription string
  | FieldMethod string
  | FieldCost int
  | FieldName string
  | FieldTid string
  | FieldEvent string
  | FieldErr error
  | FieldCustomKeyValue string string
  | FieldStack string
  | FieldPeerName string
  | FieldPeerIP string
  | Any string AnyValue

record Entry =
  level :: Level
  msg :: string
  entryFields :: "Field list"

text \<open>A finished span: operation name, tags, and the fields of its log events.\<close>

datatype TagValue = TagString string | TagCode Code | TagBool bool

record Span =
  operationName :: string
  tags :: "(string \<times> TagValue) list"
  events :: "(string \<times> string) list list"

text \<open>
  Everything a call can observe or change outside its context: the clock
  (\<open>time.Now()\<close>, nanoseconds), the entries written to the logger, the label tuples of
  the counter increments and histogram observations (an observation with its elapsed
  nanoseconds), the finished spans, and the response header of the server transport
  stream with the flag that it has been sent.
\<close>

record World =
  clock :: int
  logs :: "Entry list"
  clientCounter :: "string list list"
  clientHistogram :: "(int \<times> string list) list"
  serverCounter :: "string list list"
  serverHistogram :: "(int \<times> string list) list"
  spans :: "Span list"
  respHeader :: "(string \<times> string) list"
  headerSent :: bool

definition logAt :: "Level \<Rightarrow> string \<Rightarrow> Field list \<Rightarrow> World \<Rightarrow> World" where
  "logAt l m fs w = w\<lparr>logs := logs w @ [\<lparr>level = l, msg = m, entryFields = fs\<rparr>]\<rparr>"

definition span_Finish :: "Span \<Rightarrow> World \<Rightarrow> World" where
  "span_Finish s w = w\<lparr>spans := spans w @ [s]\<rparr>"

text \<open>A request or response message (\<open>None\<close> is nil) and its JSON text.\<close>

type_synonym Payload = "string option"

definition xstring_JSON :: "Payload \<Rightarrow> string" where
  "xstring_JSON p = (case p of None \<Rightarrow> ''null'' | Some s \<Rightarrow> s)"

text \<open>The next stage of a client call, of a unary server call, of a stream server call.\<close>

type_synonym Invoker = "Context \<Rightarrow> World \<Rightarrow> (Payload \<times> error option) Outcome \<times> World"

type_synonym StreamHandler = "Context \<Rightarrow> World \<Rightarrow> (error option) Outcome \<times> World"

section \<open>Context operations of the libraries\<close>

text \<open>\<open>metadata.AppendToOutgoingContext(ctx, k, v)\<close> adds one pair after the others.\<close>

definition metadata_AppendToOutgoingContext :: "Context \<Rightarrow> string \<Rightarrow> string \<Rightarrow> Context" where
  "metadata_AppendToOutgoingContext ctx k v = ctx\<lparr>outgoing := outgoing ctx @ [(k, v)]\<rparr>"




text \<open>
  \<open>context.WithTimeout(ctx, d)\<close> is \<open>WithDeadline(ctx, time.Now().Add(d))\<close>, and
  \<open>WithDeadline\<close> keeps an earlier deadline of the parent.
\<close>

definition context_WithDeadline :: "Context \<Rightarrow> int \<Rightarrow> Context" where
  "context_WithDeadline ctx d =
     (case deadline ctx of
        None \<Rightarrow> ctx\<lparr>deadline := Some d\<rparr>
      | Some cur \<Rightarrow> if cur < d then ctx else ctx\<lparr>deadline := Some d\<rparr>)"

definition context_WithTimeout :: "Context \<Rightarrow> int \<Rightarrow> int \<Rightarrow> Context" where
  "context_WithTimeout ctx timeout now = context_WithDeadline ctx (now + timeout)"

text \<open>
  Modelled from the spec: \<open>transport.WithValue\<close> (package core/transport, of which the
  sources hold the test only) stores a value in the context under a header name of the
  Propagated-Header Registry; a name that is not registered stores nothing. The registry
  is the list that \<open>transport.CustomContextKeys()\<close> returns.
\<close>

definition transport_WithValue :: "string list \<Rightarrow> Context \<Rightarrow> string \<Rightarrow> string \<Rightarrow> Context" where
  "transport_WithValue reg ctx key v =
     (if key \<in> set reg then ctx\<lparr>vals := (key, v) # vals ctx\<rparr> else ctx)"

text \<open>
  Modelled from the spec: \<open>transport.Value\<close> (same package) reads the value stored
  last under a registered header name; a name that is not registered reads nothing.
\<close>

definition transport_Value :: "string list \<Rightarrow> Context \<Rightarrow> string \<Rightarrow> string option" where
  "transport_Value reg ctx key = (if key \<in> set reg then map_of (vals ctx) key else None)"

text \<open>
  Modelled from the spec: \<open>tools.ContextValue\<close> (package internal/tools, not among the
  sources) is the text of the value the context holds under a registered header name, the
  empty string for the empty key and for a name without value.
\<close>

definition ContextValue :: "string list \<Rightarrow> Context \<Rightarrow> string \<Rightarrow> string" where
  "ContextValue reg ctx key =
     (if key = [] then []
      else (case transport_Value reg ctx key of None \<Rightarrow> [] | Some v \<Rightarrow> v))"

text \<open>
  \<open>grpc.SetHeader(ctx, md)\<close>: nothing to do for empty metadata; an error when the
  context has no server transport stream (its text names the context) or the stream's
  header has been sent; otherwise the pairs join the response header.
\<close>

definition errNoStream :: "Deps \<Rightarrow> Context \<Rightarrow> error" where
  "errNoStream deps ctx =
     GoError (Some (codes_Internal,
                ''grpc: failed to fetch the stream from the context '' @ fmt_Context deps ctx))
       (''rpc error: code = Internal desc = grpc: failed to fetch the stream from the context ''
          @ fmt_Context deps ctx)"

definition ErrIllegalHeaderWrite :: error where
  "ErrIllegalHeaderWrite = GoError (Some (codes_Internal, ''transport: SendHeader called multiple times''))
     ''rpc error: code = Internal desc = transport: SendHeader called multiple times''"

definition grpc_SetHeader ::
  "Deps \<Rightarrow> Context \<Rightarrow> (string \<times> string) list \<Rightarrow> World \<Rightarrow> error option \<times> World" where
  "grpc_SetHeader deps ctx md w =
     (if md = [] then (None, w)
      else if \<not> stream ctx then (Some (errNoStream deps ctx), w)
      else if headerSent w then (Some ErrIllegalHeaderWrite, w)
      else (None, w\<lparr>respHeader := respHeader w @ md\<rparr>))"

text \<open>
  \<open>etrace.StartSpanFromContext\<close> gives the context that carries the new span;
  \<open>etrace.MetadataInjector(ctx, md)\<close> writes the span's carrier pairs into \<open>md\<close>
  and makes it the outgoing metadata.
\<close>

definition etrace_StartSpanFromContext :: "Deps \<Rightarrow> Context \<Rightarrow> Context" where
  "etrace_StartSpanFromContext deps ctx = ctx\<lparr>span := Some (traceIDFor deps ctx)\<rparr>"

definition etrace_ExtractTraceID :: "Context \<Rightarrow> string" where
  "etrace_ExtractTraceID ctx = (case span ctx of None \<Rightarrow> [] | Some t \<Rightarrow> t)"

definition etrace_MetadataInjector :: "Deps \<Rightarrow> Context \<Rightarrow> (string \<times> string) list \<Rightarrow> Context" where
  "etrace_MetadataInjector deps ctx md =
     ctx\<lparr>outgoing := md @ traceCarrier deps (etrace_ExtractTraceID ctx)\<rparr>"

definition TypeGRPCUnary :: string where
  "TypeGRPCUnary = ''unary''"

definition TypeGRPCStream :: string where
  "TypeGRPCStream = ''stream''"

section \<open>Client interceptors\<close>

text \<open>
  Every interceptor takes the clock, the logger and the metrics through the world, and
  the next stage as a function. A panic of the next stage passes through a client
  interceptor, after its deferred calls.
\<close>

definition metricUnaryClientInterceptor ::
  "Deps \<Rightarrow> string \<Rightarrow> Context \<Rightarrow> string \<Rightarrow> string \<Rightarrow> Invoker \<Rightarrow> World
     \<Rightarrow> (Payload \<times> error option) Outcome \<times> World" where
  "metricUnaryClientInterceptor deps name ctx method target invoker w =
     (let beg = clock w
      in case invoker ctx w of
           (Panic r, w1) \<Rightarrow> (Panic r, w1)
         | (Return (reply, err), w1) \<Rightarrow>
             (let w2 = w1\<lparr>clientCounter := clientCounter w1 @
                         [[TypeGRPCUnary, name, method, target,
                           StatusText deps (GrpcToHTTPStatusCode deps (status_Code err))]]\<rparr>;
                  w3 = w2\<lparr>clientHistogram := clientHistogram w2 @
                         [(clock w2 - beg, [TypeGRPCUnary, name, method, target])]\<rparr>
              in (Return (reply, err), w3)))"

definition traceUnaryClientInterceptor ::
  "Deps \<Rightarrow> Context \<Rightarrow> string \<Rightarrow> Invoker \<Rightarrow> World
     \<Rightarrow> (Payload \<times> error option) Outcome \<times> World" where
  "traceUnaryClientInterceptor deps ctx method invoker w =
     (let md = map (\<lambda>(k, v). (strings_ToLower k, v)) (outgoing ctx);
          ctx1 = etrace_StartSpanFromContext deps ctx;
          sp = \<lparr>operationName = method,
                tags = [(''span.kind'', TagString ''client''), (''component'', TagString ''grpc'')],
                events = []\<rparr>
      in case invoker (etrace_MetadataInjector deps ctx1 md) w of
           (Panic r, w1) \<Rightarrow> (Panic r, span_Finish sp w1)
         | (Return (reply, err), w1) \<Rightarrow>
             (case err of
                None \<Rightarrow> (Return (reply, None), span_Finish sp w1)
              | Some e \<Rightarrow>
                  (let code = (case GRPCStatus e of None \<Rightarrow> codes_Unknown | Some s \<Rightarrow> fst s);
                       sp1 = sp\<lparr>tags := tags sp @
                               [(''response_code'', TagCode code), (''error'', TagBool True)],
                             events := events sp @
                               [[(''event'', ''error''), (''message'', ErrorText e)]]\<rparr>
                   in (Return (reply, Some e), span_Finish sp1 w1))))"

definition defaultUnaryClientInterceptor ::
  "Deps \<Rightarrow> Config \<Rightarrow> Context \<Rightarrow> Invoker \<Rightarrow> World
     \<Rightarrow> (Payload \<times> error option) Outcome \<times> World" where
  "defaultUnaryClientInterceptor deps config ctx invoker w =
     (let ctx1 = metadata_AppendToOutgoingContext ctx ''app'' (eapp_Name deps);
          ctx2 = (if EnableCPUUsage config
                  then metadata_AppendToOutgoingContext ctx1 ''enable-cpu-usage'' ''true''
                  else ctx1)
      in invoker ctx2 w)"

definition timeoutUnaryClientInterceptor ::
  "int \<Rightarrow> Context \<Rightarrow> Invoker \<Rightarrow> World \<Rightarrow> (Payload \<times> error option) Outcome \<times> World" where
  "timeoutUnaryClientInterceptor timeout ctx invoker w =
     (case deadline ctx of
        None \<Rightarrow> invoker (context_WithTimeout ctx timeout (clock w)) w
      | Some d \<Rightarrow> invoker ctx w)"

text \<open>The loop of \<open>customHeader\<close> and of the unary server interceptor over the keys.\<close>

fun headersToContext :: "string list \<Rightarrow> string list \<Rightarrow> Context \<Rightarrow> Context" where
  "headersToContext reg [] ctx = ctx"
| "headersToContext reg (key # keys) ctx =
     (let v = GrpcHeaderValue ctx key
      in if v \<noteq> [] then headersToContext reg keys (transport_WithValue reg ctx key v)
         else headersToContext reg keys ctx)"

definition customHeader ::
  "string list \<Rightarrow> string list \<Rightarrow> Context \<Rightarrow> Invoker \<Rightarrow> World
     \<Rightarrow> (Payload \<times> error option) Outcome \<times> World" where
  "customHeader reg egoLogExtraKeys ctx invoker w =
     invoker (headersToContext reg egoLogExtraKeys ctx) w"

text \<open>
  The first loop of \<open>loggerUnaryClientInterceptor\<close>: each registered key with a
  value in the context gives a log field and a pair of the outgoing metadata.
\<close>

fun loggerKeysLoop ::
  "string list \<Rightarrow> string list \<Rightarrow> Field list \<Rightarrow> Context \<Rightarrow> Field list \<times> Context" where
  "loggerKeysLoop reg [] fs ctx = (fs, ctx)"
| "loggerKeysLoop reg (key # keys) fs ctx =
     (let v = ContextValue reg ctx key
      in if v \<noteq> []
         then loggerKeysLoop reg keys (fs @ [FieldCustomKeyValue key v])
                (metadata_AppendToOutgoingContext ctx key v)
         else loggerKeysLoop reg keys fs ctx)"

text \<open>
  The end of \<open>loggerUnaryClientInterceptor\<close>, from the slow log on: the entries
  written with the fields collected so far, and the returned error.
\<close>

definition clientLogEntries ::
  "Config \<Rightarrow> int \<Rightarrow> int \<Rightarrow> Field list \<Rightarrow> Payload \<Rightarrow> error option \<Rightarrow> World
     \<Rightarrow> (Payload \<times> error option) Outcome \<times> World" where
  "clientLogEntries config httpStatusCode cost fields4 res err w1 =
     (let w2 = (if SlowLogThreshold config > 0 \<and> cost > SlowLogThreshold config
                then logAt WarnLevel ''slow'' fields4 w1
                else w1)
      in case err of
           Some e \<Rightarrow>
             (let fields5 = fields4 @ [FieldEvent ''error'', FieldErr e]
              in if httpStatusCode \<ge> StatusInternalServerError
                 then (Return (res, Some e), logAt ErrorLevel ''access'' fields5 w2)
                 else (Return (res, Some e), logAt WarnLevel ''access'' fields5 w2))
         | None \<Rightarrow>
             (if EnableAccessInterceptor config
              then (Return (res, None),
                    logAt InfoLevel ''access'' (fields4 @ [FieldEvent ''normal'']) w2)
              else (Return (res, None), w2)))"

definition loggerUnaryClientInterceptor ::
  "Deps \<Rightarrow> Config \<Rightarrow> string list \<Rightarrow> Context \<Rightarrow> string \<Rightarrow> Payload \<Rightarrow> string \<Rightarrow> Invoker
     \<Rightarrow> World \<Rightarrow> (Payload \<times> error option) Outcome \<times> World" where
  "loggerUnaryClientInterceptor deps config loggerKeys ctx method req target invoker w =
     (let beg = clock w;
          (fields0, ctx1) = loggerKeysLoop loggerKeys loggerKeys [] ctx
      in case invoker ctx1 w of
           (Panic r, w1) \<Rightarrow> (Panic r, w1)
         | (Return (res, err), w1) \<Rightarrow>
             (let cost = clock w1 - beg;
                  spbStatus = status_Convert err;
                  httpStatusCode = GrpcToHTTPStatusCode deps (fst spbStatus);
                  fields1 = fields0 @
                    [FieldType ''unary'',
                     FieldCode (word_of_int httpStatusCode),
                     FieldOriginCode (fst spbStatus),
                     FieldDescription (snd spbStatus),
                     FieldMethod method,
                     FieldCost cost,
                     FieldName target];
                  fields2 = (if EnableTraceInterceptor config \<and> IsGlobalTracerRegistered deps
                             then fields1 @ [FieldTid (etrace_ExtractTraceID ctx1)]
                             else fields1);
                  fields3 = (if EnableAccessInterceptorReq config
                             then fields2 @ [Any ''req'' (RawMessage (xstring_JSON req))]
                             else fields2);
                  fields4 = (if EnableAccessInterceptorRes config
                             then fields3 @ [Any ''res'' (RawMessage (xstring_JSON res))]
                             else fields3)
              in clientLogEntries config httpStatusCode cost fields4 res err w1))"

section \<open>Server interceptors\<close>

definition prometheusUnaryServerInterceptor ::
  "Deps \<Rightarrow> Context \<Rightarrow> string \<Rightarrow> Invoker \<Rightarrow> World
     \<Rightarrow> (Payload \<times> error option) Outcome \<times> World" where
  "prometheusUnaryServerInterceptor deps ctx fullMethod handler w =
     (let startTime = clock w
      in case handler ctx w of
           (Panic r, w1) \<Rightarrow> (Panic r, w1)
         | (Return (resp, err), w1) \<Rightarrow>
             (let w2 = w1\<lparr>serverHistogram := serverHistogram w1 @
                         [(clock w1 - startTime, [TypeGRPCUnary, fullMethod, extractApp ctx])]\<rparr>;
                  w3 = w2\<lparr>serverCounter := serverCounter w2 @
                         [[TypeGRPCUnary, fullMethod, extractApp ctx,
                           StatusText deps (GrpcToHTTPStatusCode deps (status_Code err))]]\<rparr>
              in (Return (resp, err), w3)))"

definition prometheusStreamServerInterceptor ::
  "Deps \<Rightarrow> Context \<Rightarrow> string \<Rightarrow> StreamHandler \<Rightarrow> World \<Rightarrow> (error option) Outcome \<times> World" where
  "prometheusStreamServerInterceptor deps ssContext fullMethod handler w =
     (let startTime = clock w
      in case handler ssContext w of
           (Panic r, w1) \<Rightarrow> (Panic r, w1)
         | (Return err, w1) \<Rightarrow>
             (let w2 = w1\<lparr>serverHistogram := serverHistogram w1 @
                         [(clock w1 - startTime, [TypeGRPCStream, fullMethod, extractApp ssContext])]\<rparr>;
                  w3 = w2\<lparr>serverCounter := serverCounter w2 @
                         [[TypeGRPCStream, fullMethod, extractApp ssContext,
                           StatusText deps (GrpcToHTTPStatusCode deps (status_Code err))]]\<rparr>
              in (Return err, w3)))"

definition traceUnaryServerInterceptor ::
  "Deps \<Rightarrow> Context \<Rightarrow> string \<Rightarrow> Invoker \<Rightarrow> World
     \<Rightarrow> (Payload \<times> error option) Outcome \<times> World" where
  "traceUnaryServerInterceptor deps ctx fullMethod handler w =
     (let ctx1 = etrace_StartSpanFromContext deps ctx;
          sp = \<lparr>operationName = fullMethod,
                tags = [(''component'', TagString ''gRPC''), (''span.kind'', TagString ''server.unary'')],
                events = []\<rparr>
      in case handler ctx1 w of
           (Panic r, w1) \<Rightarrow> (Panic r, span_Finish sp w1)
         | (Return (resp, err), w1) \<Rightarrow>
             (case err of
                None \<Rightarrow> (Return (resp, None), span_Finish sp w1)
              | Some e \<Rightarrow>
                  (let code = (case GRPCStatus e of None \<Rightarrow> codes_Unknown | Some s \<Rightarrow> fst s);
                       sp1 = sp\<lparr>tags := tags sp @ [(''code'', TagCode code), (''error'', TagBool True)],
                             events := events sp @
                               [[(''event'', ''error''), (''message'', ErrorText e)]]\<rparr>
                   in (Return (resp, Some e), span_Finish sp1 w1))))"

definition traceStreamServerInterceptor ::
  "Deps \<Rightarrow> Context \<Rightarrow> string \<Rightarrow> bool \<Rightarrow> StreamHandler \<Rightarrow> World
     \<Rightarrow> (error option) Outcome \<times> World" where
  "traceStreamServerInterceptor deps ssContext fullMethod isServerStream handler w =
     (let ctx = etrace_StartSpanFromContext deps ssContext;
          sp = \<lparr>operationName = fullMethod,
                tags = [(''component'', TagString ''gRPC''), (''span.kind'', TagString ''server.stream''),
                        (''isServerStream'', TagBool isServerStream)],
                events = []\<rparr>
      in case handler ctx w of
           (out, w1) \<Rightarrow> (out, span_Finish sp w1))"

text \<open>
  The recovery at the head of both deferred functions: the error after \<open>recover()\<close>,
  the fields and the event. The stack is the first 4096 bytes of the goroutine dump.
\<close>

definition runtime_Stack :: "Deps \<Rightarrow> nat \<Rightarrow> string" where
  "runtime_Stack deps n = take n (''goroutine '' @ stackDump deps)"

definition recovered :: "Deps \<Rightarrow> Recovered \<Rightarrow> error option \<times> Field list \<times> string" where
  "recovered deps rec =
     (let err = (case rec of RecError e \<Rightarrow> Some e | RecValue v \<Rightarrow> Some (fmt_Errorf_v v));
          stack = runtime_Stack deps 4096
      in (err, [FieldStack stack], ''recover''))"

definition streamLogEntries ::
  "Config \<Rightarrow> int \<Rightarrow> int \<Rightarrow> Field list \<Rightarrow> error option \<Rightarrow> World
     \<Rightarrow> (error option) Outcome \<times> World" where
  "streamLogEntries config httpStatusCode cost fields1 err w1 =
     (let w2 = (if SlowLogThreshold config > 0 \<and> SlowLogThreshold config < cost
                then logAt WarnLevel ''slow'' fields1 w1
                else w1)
      in case err of
           Some e \<Rightarrow>
             (let fields2 = fields1 @ [FieldErr e]
              in if httpStatusCode \<ge> StatusInternalServerError
                 then (Return (Some e), logAt ErrorLevel ''access'' fields2 w2)
                 else (Return (Some e), logAt WarnLevel ''access'' fields2 w2))
         | None \<Rightarrow> (Return None, logAt InfoLevel ''access'' fields1 w2))"

definition defaultStreamServerInterceptor ::
  "Deps \<Rightarrow> Config \<Rightarrow> Context \<Rightarrow> StreamHandler \<Rightarrow> World \<Rightarrow> (error option) Outcome \<times> World" where
  "defaultStreamServerInterceptor deps config streamContext handler w =
     (let beg = clock w;
          (out, w1) = handler streamContext w;
          cost = clock w1 - beg;
          (err, fields0, event) =
            (case out of
               Panic rec \<Rightarrow> recovered deps rec
             | Return e \<Rightarrow> (e, [], ''normal''));
          spbStatus = status_Convert err;
          httpStatusCode = GrpcToHTTPStatusCode deps (fst spbStatus);
          fields1 = fields0 @
            [FieldType ''stream'',
             FieldEvent event,
             FieldCode (word_of_int httpStatusCode),
             FieldOriginCode (fst spbStatus),
             FieldDescription (snd spbStatus),
             FieldCost (clock w1 - beg),
             FieldPeerName (getPeerName streamContext),
             FieldPeerIP (getPeerIP streamContext)]
      in streamLogEntries config httpStatusCode cost fields1 err w1)"

definition enableCPUUsage :: "Context \<Rightarrow> bool" where
  "enableCPUUsage ctx = (GrpcHeaderValue ctx ''enable-cpu-usage'' = ''true'')"

text \<open>
  The body of \<open>defaultUnaryServerInterceptor\<close> before it calls the handler: the CPU
  usage header. \<open>int(stat.Usage)\<close> reads the \<open>uint64\<close> as a signed 64-bit number.
  The result is the value left in the named result \<open>err\<close>.
\<close>

definition setCPUUsageHeader :: "Deps \<Rightarrow> Context \<Rightarrow> World \<Rightarrow> error option \<times> World" where
  "setCPUUsageHeader deps ctx w =
     (if enableCPUUsage ctx
      then (if Usage deps > 0
            then (let header = [(''cpu-usage'', strconv_Itoa (sint (Usage deps)))]
                  in case grpc_SetHeader deps ctx header w of
                       (Some e, w1) \<Rightarrow> (Some e, logAt ErrorLevel ''set header error'' [FieldErr e] w1)
                     | (None, w1) \<Rightarrow> (None, w1))
            else (None, w))
      else (None, w))"

text \<open>The second loop over the keys, inside the deferred function.\<close>

fun customKeyFields :: "string list \<Rightarrow> string list \<Rightarrow> Context \<Rightarrow> Field list" where
  "customKeyFields reg [] ctx = []"
| "customKeyFields reg (key # keys) ctx =
     (let v = ContextValue reg ctx key
      in if v \<noteq> [] then FieldCustomKeyValue key v # customKeyFields reg keys ctx
         else customKeyFields reg keys ctx)"

definition unaryLogEntries ::
  "Config \<Rightarrow> int \<Rightarrow> bool \<Rightarrow> Field list \<Rightarrow> Payload \<Rightarrow> error option \<Rightarrow> World
     \<Rightarrow> (Payload \<times> error option) Outcome \<times> World" where
  "unaryLogEntries config httpStatusCode isSlow fields5 res err w1 =
     (let w2 = (if isSlow then logAt WarnLevel ''slow'' fields5 w1 else w1)
      in case err of
           Some e \<Rightarrow>
             (let fields6 = fields5 @ [FieldErr e]
              in if httpStatusCode \<ge> StatusInternalServerError
                 then (Return (res, Some e), logAt ErrorLevel ''access'' fields6 w2)
                 else (Return (res, Some e), logAt WarnLevel ''access'' fields6 w2))
         | None \<Rightarrow>
             (if EnableAccessInterceptor config
              then (Return (res, None), logAt InfoLevel ''access'' fields5 w2)
              else (Return (res, None), w2)))"

definition defaultUnaryServerInterceptor ::
  "Deps \<Rightarrow> Config \<Rightarrow> string list \<Rightarrow> Context \<Rightarrow> string \<Rightarrow> Payload \<Rightarrow> Invoker \<Rightarrow> World
     \<Rightarrow> (Payload \<times> error option) Outcome \<times> World" where
  "defaultUnaryServerInterceptor deps config loggerKeys ctx0 fullMethod req handler w =
     (let beg = clock w;
          ctx = headersToContext loggerKeys loggerKeys ctx0;
          (err0, w0) = setCPUUsageHeader deps ctx w;
          (out, w1) = handler ctx w0;
          cost = clock w1 - beg;
          (res, err, fields0, event) =
            (case out of
               Panic rec \<Rightarrow> (None, recovered deps rec)
             | Return (r, e) \<Rightarrow> (r, e, [], ''normal''));
          isSlow = (SlowLogThreshold config > 0 \<and> SlowLogThreshold config < cost)
      in if err = None \<and> \<not> EnableAccessInterceptor config \<and> \<not> isSlow
         then (Return (res, err), w1)
         else
           (let spbStatus = status_Convert err;
                httpStatusCode = GrpcToHTTPStatusCode deps (fst spbStatus);
                fields1 = fields0 @
                  [FieldType ''unary'',
                   FieldCode (word_of_int httpStatusCode),
                   FieldOriginCode (fst spbStatus),
                   FieldDescription (snd spbStatus),
                   FieldEvent event,
                   FieldMethod fullMethod,
                   FieldCost (clock w1 - beg),
                   FieldPeerName (getPeerName ctx),
                   FieldPeerIP (getPeerIP ctx)];
                fields2 = fields1 @ customKeyFields loggerKeys loggerKeys ctx;
                fields3 = (if EnableTraceInterceptor config \<and> IsGlobalTracerRegistered deps
                           then fields2 @ [FieldTid (etrace_ExtractTraceID ctx)]
                           else fields2);
                fields4 = (if EnableAccessInterceptorReq config
                           then fields3 @ [Any ''req'' (ReqMap (xstring_JSON req) (incoming ctx))]
                           else fields3);
                fields5 = (if EnableAccessInterceptorRes config
                           then fields4 @ [Any ''res'' (ResMap (xstring_JSON res))]
                           else fields4)
            in unaryLogEntries config httpStatusCode isSlow fields5 res err w1))"


section \<open>Vocabulary of the properties\<close>

text \<open>
  The entries (severity and message) that the logger received after a given moment: the
  world \<open>w1\<close> is the one the next stage left, \<open>w2\<close> the one the interceptor leaves.
\<close>

definition emittedSince :: "World \<Rightarrow> World \<Rightarrow> (Level \<times> string) list" where
  "emittedSince w1 w2 = map (\<lambda>en. (level en, msg en)) (drop (length (logs w1)) (logs w2))"

text \<open>The fields of those entries.\<close>

definition fieldsSince :: "World \<Rightarrow> World \<Rightarrow> Field list list" where
  "fieldsSince w1 w2 = map entryFields (drop (length (logs w1)) (logs w2))"

text \<open>A call is slow when a positive threshold is configured and its cost exceeds it.\<close>

definition slowCall :: "Config \<Rightarrow> int \<Rightarrow> bool" where
  "slowCall config cost = (SlowLogThreshold config > 0 \<and> cost > SlowLogThreshold config)"

text \<open>
  The severity of the entry of a failed call: error for a normalized status of 500 and
  above, warning below.
\<close>

definition severity :: "Deps \<Rightarrow> error option \<Rightarrow> Level" where
  "severity deps err =
     (if GrpcToHTTPStatusCode deps (fst (status_Convert err)) \<ge> 500 then ErrorLevel else WarnLevel)"

definition slowEntry :: "Config \<Rightarrow> int \<Rightarrow> (Level \<times> string) list" where
  "slowEntry config cost = (if slowCall config cost then [(WarnLevel, ''slow'')] else [])"

definition accessEntry :: "Deps \<Rightarrow> bool \<Rightarrow> error option \<Rightarrow> (Level \<times> string) list" where
  "accessEntry deps enabled err =
     (case err of
        Some e \<Rightarrow> [(severity deps err, ''access'')]
      | None \<Rightarrow> if enabled then [(InfoLevel, ''access'')] else [])"

text \<open>The error of a server call: the handler's, or the one made from its panic.\<close>

definition streamError :: "Deps \<Rightarrow> (error option) Outcome \<Rightarrow> error option" where
  "streamError deps out = (case out of Return e \<Rightarrow> e | Panic rec \<Rightarrow> fst (recovered deps rec))"

definition unaryError :: "Deps \<Rightarrow> (Payload \<times> error option) Outcome \<Rightarrow> error option" where
  "unaryError deps out = (case out of Return (r, e) \<Rightarrow> e | Panic rec \<Rightarrow> fst (recovered deps rec))"

text \<open>The event tags and the stack traces among the fields of an entry.\<close>

definition eventsOf :: "Field list \<Rightarrow> string list" where
  "eventsOf fs = concat (map (\<lambda>f. case f of FieldEvent ev \<Rightarrow> [ev] | _ \<Rightarrow> []) fs)"

definition stacksOf :: "Field list \<Rightarrow> string list" where
  "stacksOf fs = concat (map (\<lambda>f. case f of FieldStack st \<Rightarrow> [st] | _ \<Rightarrow> []) fs)"

subsection \<open>Sample values for the examples\<close>

text \<open>
  Collaborators with a status mapping that sends OK to 200, InvalidArgument to 400 and
  every other code to 500; a configuration with a slow threshold of 100 and access
  logging off; an initial world; next stages that take \<open>d\<close> nanoseconds and then
  return or panic.
\<close>

definition sampleDeps :: Deps where
  "sampleDeps = \<lparr>GrpcToHTTPStatusCode = (\<lambda>c. if c = 0 then 200 else if c = 3 then 400 else 500),
     StatusText = (\<lambda>n. if n = 200 then ''OK'' else ''Error''),
     IsGlobalTracerRegistered = False,
     traceIDFor = (\<lambda>ctx. ''t1''),
     traceCarrier = (\<lambda>t. [(''trace-id'', t)]),
     eapp_Name = ''caller'',
     Usage = 250,
     stackDump = ''1 [running]:'',
     fmt_Context = (\<lambda>ctx. ''context.Background'')\<rparr>"

definition sampleConfig :: Config where
  "sampleConfig = \<lparr>EnableAccessInterceptor = False, EnableAccessInterceptorReq = False,
     EnableAccessInterceptorRes = False, EnableTraceInterceptor = False,
     EnableCPUUsage = False, SlowLogThreshold = 100\<rparr>"

definition world0 :: World where
  "world0 = \<lparr>clock = 0, logs = [], clientCounter = [], clientHistogram = [],
     serverCounter = [], serverHistogram = [], spans = [], respHeader = [],
     headerSent = False\<rparr>"

definition returning :: "Payload \<Rightarrow> error option \<Rightarrow> int \<Rightarrow> Invoker" where
  "returning r e d = (\<lambda>ctx w. (Return (r, e), w\<lparr>clock := clock w + d\<rparr>))"

definition panicking :: "Recovered \<Rightarrow> int \<Rightarrow> Invoker" where
  "panicking rec d = (\<lambda>ctx w. (Panic rec, w\<lparr>clock := clock w + d\<rparr>))"

definition streamReturning :: "error option \<Rightarrow> int \<Rightarrow> StreamHandler" where
  "streamReturning e d = (\<lambda>ctx w. (Return e, w\<lparr>clock := clock w + d\<rparr>))"

definition streamPanicking :: "Recovered \<Rightarrow> int \<Rightarrow> StreamHandler" where
  "streamPanicking rec d = (\<lambda>ctx w. (Panic rec, w\<lparr>clock := clock w + d\<rparr>))"

text \<open>A next stage that runs until the deadline of its context and then fails.\<close>

definition untilDeadline :: Invoker where
  "untilDeadline =
     (\<lambda>ctx w. (Return (None, Some (GoError (Some (4, ''context deadline exceeded''))
                   ''rpc error: code = DeadlineExceeded desc = context deadline exceeded'')),
               w\<lparr>clock := (case deadline ctx of None \<Rightarrow> clock w | Some d \<Rightarrow> d)\<rparr>))"

text \<open>A server context whose carrier asks for the CPU usage.\<close>

definition flagged :: Context where
  "flagged = background\<lparr>incoming := Some [(''enable-cpu-usage'', [''true''])], stream := True\<rparr>"


definition boom :: error where
  "boom = GoError None ''boom''"

definition badRequest :: error where
  "badRequest = GoError (Some (3, ''bad request'')) ''rpc error: code = InvalidArgument desc = bad request''"

section \<open>Properties\<close>

subsection \<open>Splitting at a separator\<close>

lemma strings_Split_not_Nil: "strings_Split s c \<noteq> []"
  by (induction s) (auto split: list.splits)

lemma hd_strings_Split: "hd (strings_Split s c) = takeWhile (\<lambda>x. x \<noteq> c) s"
proof (induction s)
  case Nil
  show ?case by simp
next
  case (Cons x xs)
  show ?case
  proof (cases "strings_Split xs c")
    case Nil
    with strings_Split_not_Nil show ?thesis by blast
  next
    case (Cons p ps)
    with Cons.IH show ?thesis by auto
  qed
qed

lemma length_strings_Split: "length (strings_Split s c) = Suc (length (filter (\<lambda>x. x = c) s))"
proof (induction s)
  case Nil
  show ?case by simp
next
  case (Cons x xs)
  then show ?case by (cases "strings_Split xs c") auto
qed

lemma strings_Split_many: "Suc 0 < length (strings_Split s c) \<longleftrightarrow> c \<in> set s"
proof -
  have "filter (\<lambda>x. x = c) s \<noteq> [] \<longleftrightarrow> c \<in> set s"
    by (auto simp: filter_empty_conv)
  then show ?thesis by (simp add: length_strings_Split)
qed

subsection \<open>The peer address\<close>

text \<open>
  C10. \<open>getPeerIP\<close> is total and returns the \<open>client-ip\<close> header of the carrier
  when that is not empty; otherwise the text before the first colon of the transport
  peer's address; and the empty string when the context has no peer, the peer's address
  is nil, or the address text has no colon.
\<close>

theorem getPeerIP_spec:
  "getPeerIP ctx =
     (if GrpcHeaderValue ctx ''client-ip'' \<noteq> [] then GrpcHeaderValue ctx ''client-ip''
      else if peer ctx = None then []
      else if Addr (the (peer ctx)) = None then []
      else if CHR '':'' \<notin> set (the (Addr (the (peer ctx)))) then []
      else takeWhile (\<lambda>x. x \<noteq> CHR '':'') (the (Addr (the (peer ctx)))))"
  by (auto simp: getPeerIP_def Let_def hd_strings_Split strings_Split_many
      split: option.splits)

subsection \<open>What the logging interceptors write\<close>

lemma emittedSince_self: "emittedSince w w = []"
  by (simp add: emittedSince_def)

lemma emittedSince_logAt: "emittedSince w (logAt l m fs w) = [(l, m)]"
  by (simp add: emittedSince_def logAt_def)

lemma emittedSince_logAt2:
  "emittedSince w (logAt l m fs (logAt l' m' fs' w)) = [(l', m'), (l, m)]"
  by (simp add: emittedSince_def logAt_def)

lemmas emitted_simps = emittedSince_self emittedSince_logAt emittedSince_logAt2

lemma clientLogEntries_emitted:
  "emittedSince w1
     (snd (clientLogEntries config (GrpcToHTTPStatusCode deps (fst (status_Convert err)))
             cost fs res err w1))
     = slowEntry config cost @ accessEntry deps (EnableAccessInterceptor config) err"
  by (cases err)
     (simp_all add: clientLogEntries_def Let_def slowEntry_def slowCall_def accessEntry_def
        severity_def StatusInternalServerError_def emitted_simps)

lemma streamLogEntries_emitted:
  "emittedSince w1
     (snd (streamLogEntries config (GrpcToHTTPStatusCode deps (fst (status_Convert err)))
             cost fs err w1))
     = slowEntry config cost @ accessEntry deps True err"
  by (cases err)
     (simp_all add: streamLogEntries_def Let_def slowEntry_def slowCall_def accessEntry_def
        severity_def StatusInternalServerError_def emitted_simps)

lemma unaryLogEntries_emitted:
  "emittedSince w1
     (snd (unaryLogEntries config (GrpcToHTTPStatusCode deps (fst (status_Convert err)))
             sl fs res err w1))
     = (if sl then [(WarnLevel, ''slow'')] else [])
       @ accessEntry deps (EnableAccessInterceptor config) err"
  by (cases err)
     (simp_all add: unaryLogEntries_def Let_def accessEntry_def severity_def
        StatusInternalServerError_def emitted_simps)

lemma client_logger_entries:
  assumes "invoker (snd (loggerKeysLoop keys keys [] ctx)) w = (Return (res, err), w1)"
  shows "emittedSince w1
           (snd (loggerUnaryClientInterceptor deps config keys ctx meth req target invoker w))
         = slowEntry config (clock w1 - clock w)
           @ accessEntry deps (EnableAccessInterceptor config) err"
proof -
  obtain fields0 ctx1 where L: "loggerKeysLoop keys keys [] ctx = (fields0, ctx1)"
    by (cases "loggerKeysLoop keys keys [] ctx")
  with assms have I: "invoker ctx1 w = (Return (res, err), w1)" by simp
  show ?thesis
    unfolding loggerUnaryClientInterceptor_def
    by (simp add: L I Let_def clientLogEntries_emitted split del: if_split)
qed

lemma stream_server_entries:
  assumes "handler ctx w = (out, w1)"
  shows "emittedSince w1 (snd (defaultStreamServerInterceptor deps config ctx handler w))
         = slowEntry config (clock w1 - clock w) @ accessEntry deps True (streamError deps out)"
proof (cases out)
  case (Return e)
  show ?thesis
    unfolding defaultStreamServerInterceptor_def
    by (simp add: assms Return Let_def streamLogEntries_emitted streamError_def
        split del: if_split)
next
  case (Panic rec)
  show ?thesis
    unfolding defaultStreamServerInterceptor_def
    by (simp add: assms Panic Let_def recovered_def streamLogEntries_emitted streamError_def
        split del: if_split)
qed

lemma unary_server_entries:
  assumes "handler (headersToContext keys keys ctx)
             (snd (setCPUUsageHeader deps (headersToContext keys keys ctx) w)) = (out, w1)"
  shows "emittedSince w1
           (snd (defaultUnaryServerInterceptor deps config keys ctx meth req handler w))
         = slowEntry config (clock w1 - clock w)
           @ accessEntry deps (EnableAccessInterceptor config) (unaryError deps out)"
proof -
  obtain err0 w0 where S: "setCPUUsageHeader deps (headersToContext keys keys ctx) w = (err0, w0)"
    by (cases "setCPUUsageHeader deps (headersToContext keys keys ctx) w")
  with assms have H: "handler (headersToContext keys keys ctx) w0 = (out, w1)" by simp
  show ?thesis
  proof (cases out)
    case (Return p)
    obtain r e where p: "p = (r, e)" by (cases p)
    show ?thesis
      unfolding defaultUnaryServerInterceptor_def
      by (simp add: S H Return p Let_def unaryLogEntries_emitted unaryError_def slowEntry_def
          slowCall_def accessEntry_def emittedSince_self)
  next
    case (Panic rec)
    show ?thesis
      unfolding defaultUnaryServerInterceptor_def
      by (cases rec)
         (simp_all add: S H Panic Let_def recovered_def unaryLogEntries_emitted unaryError_def
            slowEntry_def slowCall_def)
  qed
qed

subsection \<open>Severity of the entry of a failed call\<close>

text \<open>
  C5. When a call returns an error (on the server also the error made from a panic), the
  logger interceptor writes exactly one \<open>access\<close> entry, and its severity is error if
  and only if the normalized HTTP status code mapped from the gRPC code is at least 500,
  and warning otherwise. This holds for the client interceptor and for the unary and the
  stream server interceptors.
\<close>

theorem access_severity:
  assumes client: "invoker (snd (loggerKeysLoop keys keys [] ctx)) w = (Return (res, Some e), wc)"
    and unary: "handler (headersToContext keys keys sctx)
                  (snd (setCPUUsageHeader deps (headersToContext keys keys sctx) w)) = (out, wu)"
               "unaryError deps out = Some eu"
    and stream: "shandler ssctx w = (sout, ws)" "streamError deps sout = Some es"
  shows "filter (\<lambda>(l, m). m = ''access'')
           (emittedSince wc
              (snd (loggerUnaryClientInterceptor deps config keys ctx meth req target invoker w)))
         = [(if GrpcToHTTPStatusCode deps (fst (status_Convert (Some e))) \<ge> 500
             then ErrorLevel else WarnLevel, ''access'')]
       \<and> filter (\<lambda>(l, m). m = ''access'')
           (emittedSince wu
              (snd (defaultUnaryServerInterceptor deps config keys sctx meth req handler w)))
         = [(if GrpcToHTTPStatusCode deps (fst (status_Convert (Some eu))) \<ge> 500
             then ErrorLevel else WarnLevel, ''access'')]
       \<and> filter (\<lambda>(l, m). m = ''access'')
           (emittedSince ws (snd (defaultStreamServerInterceptor deps config ssctx shandler w)))
         = [(if GrpcToHTTPStatusCode deps (fst (status_Convert (Some es))) \<ge> 500
             then ErrorLevel else WarnLevel, ''access'')]"
proof (intro conjI)
  show "filter (\<lambda>(l, m). m = ''access'')
           (emittedSince wc
              (snd (loggerUnaryClientInterceptor deps config keys ctx meth req target invoker w)))
         = [(if GrpcToHTTPStatusCode deps (fst (status_Convert (Some e))) \<ge> 500
             then ErrorLevel else WarnLevel, ''access'')]"
    by (simp add: client_logger_entries [where invoker = invoker and keys = keys and ctx = ctx and w = w, OF client] slowEntry_def accessEntry_def severity_def)
  show "filter (\<lambda>(l, m). m = ''access'')
           (emittedSince wu
              (snd (defaultUnaryServerInterceptor deps config keys sctx meth req handler w)))
         = [(if GrpcToHTTPStatusCode deps (fst (status_Convert (Some eu))) \<ge> 500
             then ErrorLevel else WarnLevel, ''access'')]"
    by (simp add: unary_server_entries [where handler = handler and keys = keys and ctx = sctx and w = w, OF unary(1)] unary(2) slowEntry_def accessEntry_def severity_def)
  show "filter (\<lambda>(l, m). m = ''access'')
           (emittedSince ws (snd (defaultStreamServerInterceptor deps config ssctx shandler w)))
         = [(if GrpcToHTTPStatusCode deps (fst (status_Convert (Some es))) \<ge> 500
             then ErrorLevel else WarnLevel, ''access'')]"
    by (simp add: stream_server_entries [where handler = shandler and ctx = ssctx and w = w, OF stream(1)] stream(2) slowEntry_def accessEntry_def severity_def)
qed

theorem access_severity_witness:
  "filter (\<lambda>(l, m). m = ''access'')
     (emittedSince (world0\<lparr>clock := 5\<rparr>)
        (snd (loggerUnaryClientInterceptor sampleDeps sampleConfig [] background ''/svc/M'' None
                ''addr'' (returning None (Some boom) 5) world0)))
     = [(ErrorLevel, ''access'')]
   \<and> filter (\<lambda>(l, m). m = ''access'')
     (emittedSince (world0\<lparr>clock := 150\<rparr>)
        (snd (defaultUnaryServerInterceptor sampleDeps sampleConfig [] background ''/svc/M'' None
                (returning None (Some badRequest) 150) world0)))
     = [(WarnLevel, ''access'')]
   \<and> filter (\<lambda>(l, m). m = ''access'')
     (emittedSince (world0\<lparr>clock := 5\<rparr>)
        (snd (defaultStreamServerInterceptor sampleDeps sampleConfig background
                (streamPanicking (RecValue (VString ''kaboom'')) 5) world0)))
     = [(ErrorLevel, ''access'')]"
proof -
  have a: "returning None (Some boom) 5 (snd (loggerKeysLoop [] [] [] background)) world0
             = (Return (None, Some boom), world0\<lparr>clock := 5\<rparr>)"
    by (simp add: returning_def world0_def)
  have b: "returning None (Some badRequest) 150 (headersToContext [] [] background)
             (snd (setCPUUsageHeader sampleDeps (headersToContext [] [] background) world0))
           = (Return (None, Some badRequest), world0\<lparr>clock := 150\<rparr>)"
    by (simp add: returning_def world0_def setCPUUsageHeader_def enableCPUUsage_def
        GrpcHeaderValue_def background_def)
  have c: "unaryError sampleDeps (Return (None, Some badRequest)) = Some badRequest"
    by (simp add: unaryError_def)
  have d: "streamPanicking (RecValue (VString ''kaboom'')) 5 background world0
             = (Panic (RecValue (VString ''kaboom'')), world0\<lparr>clock := 5\<rparr>)"
    by (simp add: streamPanicking_def world0_def)
  have e: "streamError sampleDeps (Panic (RecValue (VString ''kaboom''))) = Some (fmt_Errorf_v (VString ''kaboom''))"
    by (simp add: streamError_def recovered_def)
  from access_severity [where invoker = "returning None (Some boom) 5" and keys = "[]"
      and ctx = background and w = world0 and deps = sampleDeps and sctx = background
      and handler = "returning None (Some badRequest) 150" and ssctx = background
      and shandler = "streamPanicking (RecValue (VString ''kaboom'')) 5"
      and config = sampleConfig and meth = "''/svc/M''" and req = None and target = "''addr''",
      OF a b c d e]
  show ?thesis
    by (simp add: sampleDeps_def boom_def badRequest_def status_Convert_def codes_Unknown_def
        fmt_Errorf_v_def)
qed

subsection \<open>Calls that should leave no entry\<close>

text \<open>
  C4. A stream server call that returns no error, with access logging disabled and no
  slow threshold, still gets an \<open>access\<close> entry at info severity: the stream
  interceptor does not read \<open>EnableAccessInterceptor\<close>.
\<close>

theorem stream_entry_with_access_disabled:
  "emittedSince w
     (snd (defaultStreamServerInterceptor deps
             (config\<lparr>EnableAccessInterceptor := False, SlowLogThreshold := 0\<rparr>) ctx
             (\<lambda>c w'. (Return None, w')) w))
   = [(InfoLevel, ''access'')]"
proof -
  have h: "(\<lambda>c w'. (Return None, w')) ctx w = (Return None, w)" by simp
  show ?thesis
    by (simp add: stream_server_entries [where handler = "\<lambda>c w'. (Return None, w')"
          and ctx = ctx and w = w, OF h] slowEntry_def slowCall_def accessEntry_def
        streamError_def)
qed

text \<open>The unary server interceptor and the client interceptor write nothing there.\<close>

lemma unary_no_entry:
  assumes "handler (headersToContext keys keys ctx)
             (snd (setCPUUsageHeader deps (headersToContext keys keys ctx) w)) = (Return (r, None), w1)"
    and "\<not> EnableAccessInterceptor config" and "\<not> slowCall config (clock w1 - clock w)"
  shows "emittedSince w1
           (snd (defaultUnaryServerInterceptor deps config keys ctx meth req handler w)) = []"
  using assms(2,3)
  by (simp add: unary_server_entries [where handler = handler and keys = keys and ctx = ctx
        and w = w, OF assms(1)] slowEntry_def accessEntry_def unaryError_def)

lemma client_no_entry:
  assumes "invoker (snd (loggerKeysLoop keys keys [] ctx)) w = (Return (res, None), w1)"
    and "\<not> EnableAccessInterceptor config" and "\<not> slowCall config (clock w1 - clock w)"
  shows "emittedSince w1
           (snd (loggerUnaryClientInterceptor deps config keys ctx meth req target invoker w)) = []"
  using assms(2,3)
  by (simp add: client_logger_entries [where invoker = invoker and keys = keys and ctx = ctx
        and w = w, OF assms(1)] slowEntry_def accessEntry_def)

subsection \<open>The peer label of the metrics\<close>

text \<open>
  What holds of the label: \<open>extractApp\<close> gives \<open>unknown\<close> for a context without
  incoming metadata and the declared name when the carrier has one \<open>app\<close> value; the
  client interceptor labels with the target address.
\<close>

lemma extractApp_no_carrier: "incoming ctx = None \<Longrightarrow> extractApp ctx = ''unknown''"
  by (simp add: extractApp_def)

lemma extractApp_declared:
  "incoming ctx = Some md \<Longrightarrow> md_Get md ''app'' = [a] \<Longrightarrow> extractApp ctx = a"
  by (simp add: extractApp_def)

lemma client_metric_label:
  assumes "invoker ctx w = (Return (reply, err), w1)"
  shows "clientCounter (snd (metricUnaryClientInterceptor deps name ctx meth target invoker w))
           = clientCounter w1 @ [[''unary'', name, meth, target,
                StatusText deps (GrpcToHTTPStatusCode deps (status_Code err))]]"
  using assms by (simp add: metricUnaryClientInterceptor_def Let_def TypeGRPCUnary_def)

text \<open>
  C8. A server call whose carrier is present and declares no application name (here it
  holds a \<open>user-agent\<close> header only) is labelled with the empty string, not with
  \<open>unknown\<close>: \<open>extractApp\<close> gives \<open>unknown\<close> only for a context without
  incoming metadata.
\<close>

theorem peer_label_without_app:
  "extractApp (background\<lparr>incoming := Some [(''user-agent'', [''grpc-go/1.26.0''])]\<rparr>) = []
   \<and> serverCounter (snd (prometheusUnaryServerInterceptor deps
        (background\<lparr>incoming := Some [(''user-agent'', [''grpc-go/1.26.0''])]\<rparr>) m
        (\<lambda>c w'. (Return (None, None), w')) w))
     = serverCounter w @ [[''unary'', m, [], StatusText deps (GrpcToHTTPStatusCode deps 0)]]"
proof -
  have e: "extractApp (background\<lparr>incoming := Some [(''user-agent'', [''grpc-go/1.26.0''])]\<rparr>) = []"
    by code_simp
  then show ?thesis
    by (simp add: prometheusUnaryServerInterceptor_def Let_def TypeGRPCUnary_def status_Code_def
        status_Convert_def codes_OK_def)
qed

subsection \<open>The default timeout\<close>

text \<open>
  C3. When the caller's context has no deadline, the timeout interceptor calls the next
  stage with the same context carrying the deadline "start time plus configured timeout";
  when the caller set a deadline, the next stage gets the caller's context unchanged.
\<close>

theorem timeout_deadline:
  "(deadline ctx = None \<longrightarrow>
      timeoutUnaryClientInterceptor timeout ctx invoker w
        = invoker (ctx\<lparr>deadline := Some (clock w + timeout)\<rparr>) w)
   \<and> (\<forall>d. deadline ctx = Some d \<longrightarrow>
      timeoutUnaryClientInterceptor timeout ctx invoker w = invoker ctx w)"
  by (simp add: timeoutUnaryClientInterceptor_def context_WithTimeout_def context_WithDeadline_def)

theorem timeout_deadline_witness:
  "snd (timeoutUnaryClientInterceptor 1000 background untilDeadline (world0\<lparr>clock := 7\<rparr>))
     = world0\<lparr>clock := 1007\<rparr>
   \<and> snd (timeoutUnaryClientInterceptor 1000 (background\<lparr>deadline := Some 50\<rparr>) untilDeadline
        (world0\<lparr>clock := 7\<rparr>))
     = world0\<lparr>clock := 50\<rparr>"
  using timeout_deadline [of background 1000 untilDeadline "world0\<lparr>clock := 7\<rparr>"]
    timeout_deadline [of "background\<lparr>deadline := Some 50\<rparr>" 1000 untilDeadline "world0\<lparr>clock := 7\<rparr>"]
  by (simp add: background_def untilDeadline_def world0_def)

subsection \<open>What the interceptors return\<close>

lemma fst_clientLogEntries: "fst (clientLogEntries config h cost fs res err w1) = Return (res, err)"
  by (cases err) (simp_all add: clientLogEntries_def Let_def)

lemma fst_streamLogEntries: "fst (streamLogEntries config h cost fs err w1) = Return err"
  by (cases err) (simp_all add: streamLogEntries_def Let_def)

lemma fst_unaryLogEntries: "fst (unaryLogEntries config h sl fs res err w1) = Return (res, err)"
  by (cases err) (simp_all add: unaryLogEntries_def Let_def)

text \<open>
  C9. Every interceptor returns the outcome of its one call of the next stage, reply and
  error unchanged: metrics, tracing, outgoing headers, timeout, logging and custom headers
  on the client; metrics and tracing on the server. The two server interceptors with the
  recovery guard return the handler's result unchanged when the handler returns, and make
  an error only from a panic.
\<close>

theorem errors_pass_unchanged:
  "fst (metricUnaryClientInterceptor deps name ctx meth target invoker w) = fst (invoker ctx w)
   \<and> fst (traceUnaryClientInterceptor deps ctx meth invoker w)
     = fst (invoker (etrace_MetadataInjector deps (etrace_StartSpanFromContext deps ctx)
              (map (\<lambda>(k, v). (strings_ToLower k, v)) (outgoing ctx))) w)
   \<and> fst (defaultUnaryClientInterceptor deps config ctx invoker w)
     = fst (invoker (if EnableCPUUsage config
                     then metadata_AppendToOutgoingContext
                            (metadata_AppendToOutgoingContext ctx ''app'' (eapp_Name deps))
                            ''enable-cpu-usage'' ''true''
                     else metadata_AppendToOutgoingContext ctx ''app'' (eapp_Name deps)) w)
   \<and> fst (timeoutUnaryClientInterceptor timeout ctx invoker w)
     = fst (invoker (case deadline ctx of None \<Rightarrow> context_WithTimeout ctx timeout (clock w)
                     | Some d \<Rightarrow> ctx) w)
   \<and> fst (loggerUnaryClientInterceptor deps config keys ctx meth req target invoker w)
     = fst (invoker (snd (loggerKeysLoop keys keys [] ctx)) w)
   \<and> fst (customHeader reg keys ctx invoker w) = fst (invoker (headersToContext reg keys ctx) w)
   \<and> fst (prometheusUnaryServerInterceptor deps ctx meth invoker w) = fst (invoker ctx w)
   \<and> fst (prometheusStreamServerInterceptor deps ctx meth sh w) = fst (sh ctx w)
   \<and> fst (traceUnaryServerInterceptor deps ctx meth invoker w)
     = fst (invoker (etrace_StartSpanFromContext deps ctx) w)
   \<and> fst (traceStreamServerInterceptor deps ctx meth b sh w)
     = fst (sh (etrace_StartSpanFromContext deps ctx) w)
   \<and> fst (defaultStreamServerInterceptor deps config ctx sh w)
     = (case fst (sh ctx w) of
          Return e \<Rightarrow> Return e
        | Panic rec \<Rightarrow> Return (fst (recovered deps rec)))
   \<and> fst (defaultUnaryServerInterceptor deps config keys ctx meth req invoker w)
     = (case fst (invoker (headersToContext keys keys ctx)
                    (snd (setCPUUsageHeader deps (headersToContext keys keys ctx) w))) of
          Return x \<Rightarrow> Return x
        | Panic rec \<Rightarrow> Return (None, fst (recovered deps rec)))"
proof (intro conjI)
  show "fst (metricUnaryClientInterceptor deps name ctx meth target invoker w) = fst (invoker ctx w)"
    by (simp add: metricUnaryClientInterceptor_def Let_def split: prod.splits Outcome.splits)
  show "fst (traceUnaryClientInterceptor deps ctx meth invoker w)
     = fst (invoker (etrace_MetadataInjector deps (etrace_StartSpanFromContext deps ctx)
              (map (\<lambda>(k, v). (strings_ToLower k, v)) (outgoing ctx))) w)"
    by (simp add: traceUnaryClientInterceptor_def Let_def split: prod.splits Outcome.splits option.splits)
  show "fst (defaultUnaryClientInterceptor deps config ctx invoker w)
     = fst (invoker (if EnableCPUUsage config
                     then metadata_AppendToOutgoingContext
                            (metadata_AppendToOutgoingContext ctx ''app'' (eapp_Name deps))
                            ''enable-cpu-usage'' ''true''
                     else metadata_AppendToOutgoingContext ctx ''app'' (eapp_Name deps)) w)"
    by (simp add: defaultUnaryClientInterceptor_def Let_def)
  show "fst (timeoutUnaryClientInterceptor timeout ctx invoker w)
     = fst (invoker (case deadline ctx of None \<Rightarrow> context_WithTimeout ctx timeout (clock w)
                     | Some d \<Rightarrow> ctx) w)"
    by (simp add: timeoutUnaryClientInterceptor_def split: option.splits)
  show "fst (loggerUnaryClientInterceptor deps config keys ctx meth req target invoker w)
     = fst (invoker (snd (loggerKeysLoop keys keys [] ctx)) w)"
  proof -
    obtain fields0 ctx1 where L: "loggerKeysLoop keys keys [] ctx = (fields0, ctx1)"
      by (cases "loggerKeysLoop keys keys [] ctx")
    obtain out w1 where I: "invoker ctx1 w = (out, w1)" by (cases "invoker ctx1 w")
    show ?thesis
    proof (cases out)
      case (Return p)
      obtain r e where p: "p = (r, e)" by (cases p)
      show ?thesis
        unfolding loggerUnaryClientInterceptor_def
        by (simp add: L I Return p Let_def fst_clientLogEntries)
    next
      case (Panic rec)
      show ?thesis
        unfolding loggerUnaryClientInterceptor_def by (simp add: L I Panic)
    qed
  qed
  show "fst (customHeader reg keys ctx invoker w) = fst (invoker (headersToContext reg keys ctx) w)"
    by (simp add: customHeader_def)
  show "fst (prometheusUnaryServerInterceptor deps ctx meth invoker w) = fst (invoker ctx w)"
    by (simp add: prometheusUnaryServerInterceptor_def Let_def split: prod.splits Outcome.splits)
  show "fst (prometheusStreamServerInterceptor deps ctx meth sh w) = fst (sh ctx w)"
    by (simp add: prometheusStreamServerInterceptor_def Let_def split: prod.splits Outcome.splits)
  show "fst (traceUnaryServerInterceptor deps ctx meth invoker w)
     = fst (invoker (etrace_StartSpanFromContext deps ctx) w)"
    by (simp add: traceUnaryServerInterceptor_def Let_def split: prod.splits Outcome.splits option.splits)
  show "fst (traceStreamServerInterceptor deps ctx meth b sh w)
     = fst (sh (etrace_StartSpanFromContext deps ctx) w)"
    by (simp add: traceStreamServerInterceptor_def Let_def split: prod.splits)
  show "fst (defaultStreamServerInterceptor deps config ctx sh w)
     = (case fst (sh ctx w) of
          Return e \<Rightarrow> Return e
        | Panic rec \<Rightarrow> Return (fst (recovered deps rec)))"
  proof -
    obtain out w1 where I: "sh ctx w = (out, w1)" by (cases "sh ctx w")
    show ?thesis
    proof (cases out)
      case (Return e)
      show ?thesis
        unfolding defaultStreamServerInterceptor_def
        by (simp add: I Return Let_def fst_streamLogEntries)
    next
      case (Panic rec)
      show ?thesis
        unfolding defaultStreamServerInterceptor_def
        by (cases rec) (simp_all add: I Panic Let_def recovered_def fst_streamLogEntries)
    qed
  qed
  show "fst (defaultUnaryServerInterceptor deps config keys ctx meth req invoker w)
     = (case fst (invoker (headersToContext keys keys ctx)
                    (snd (setCPUUsageHeader deps (headersToContext keys keys ctx) w))) of
          Return x \<Rightarrow> Return x
        | Panic rec \<Rightarrow> Return (None, fst (recovered deps rec)))"
  proof -
    obtain err0 w0 where S: "setCPUUsageHeader deps (headersToContext keys keys ctx) w = (err0, w0)"
      by (cases "setCPUUsageHeader deps (headersToContext keys keys ctx) w")
    obtain out w1 where I: "invoker (headersToContext keys keys ctx) w0 = (out, w1)"
      by (cases "invoker (headersToContext keys keys ctx) w0")
    show ?thesis
    proof (cases out)
      case (Return p)
      obtain r e where p: "p = (r, e)" by (cases p)
      show ?thesis
        unfolding defaultUnaryServerInterceptor_def
        by (simp add: S I Return p Let_def fst_unaryLogEntries)
    next
      case (Panic rec)
      show ?thesis
        unfolding defaultUnaryServerInterceptor_def
        by (cases rec) (simp_all add: S I Panic Let_def recovered_def fst_unaryLogEntries)
    qed
  qed
qed

subsection \<open>Recovery of a handler's panic\<close>

lemma eventsOf_simps:
  "eventsOf [] = []"
  "eventsOf (f # fs) = (case f of FieldEvent ev \<Rightarrow> [ev] | _ \<Rightarrow> []) @ eventsOf fs"
  "eventsOf (fs @ gs) = eventsOf fs @ eventsOf gs"
  by (simp_all add: eventsOf_def)

lemma stacksOf_simps:
  "stacksOf [] = []"
  "stacksOf (f # fs) = (case f of FieldStack st \<Rightarrow> [st] | _ \<Rightarrow> []) @ stacksOf fs"
  "stacksOf (fs @ gs) = stacksOf fs @ stacksOf gs"
  by (simp_all add: stacksOf_def)

lemma customKeyFields_plain:
  "eventsOf (customKeyFields reg keys ctx) = [] \<and> stacksOf (customKeyFields reg keys ctx) = []"
  by (induction keys) (simp_all add: eventsOf_simps stacksOf_simps Let_def)

lemma fieldsSince_logAt: "fieldsSince w (logAt l m fs w) = [fs]"
  by (simp add: fieldsSince_def logAt_def)

lemma fieldsSince_logAt2: "fieldsSince w (logAt l m fs (logAt l' m' fs' w)) = [fs', fs]"
  by (simp add: fieldsSince_def logAt_def)

lemma fieldsSince_unaryLogEntries:
  "fieldsSince w1 (snd (unaryLogEntries config h sl fs res (Some e) w1))
     = (if sl then [fs] else []) @ [fs @ [FieldErr e]]"
  by (simp add: unaryLogEntries_def Let_def fieldsSince_logAt fieldsSince_logAt2)

lemma fieldsSince_streamLogEntries:
  "fieldsSince w1 (snd (streamLogEntries config h cost fs (Some e) w1))
     = (if SlowLogThreshold config > 0 \<and> SlowLogThreshold config < cost then [fs] else [])
       @ [fs @ [FieldErr e]]"
  by (simp add: streamLogEntries_def Let_def fieldsSince_logAt fieldsSince_logAt2)

lemma runtime_Stack_not_empty: "runtime_Stack deps 4096 \<noteq> []"
  by (simp add: runtime_Stack_def)

lemma recovered_Some: "\<exists>e. fst (recovered deps rec) = Some e"
  by (cases rec) (simp_all add: recovered_def)

lemma unary_panic_fields:
  assumes "handler (headersToContext keys keys ctx)
             (snd (setCPUUsageHeader deps (headersToContext keys keys ctx) w)) = (Panic rec, w1)"
  shows "fieldsSince w1 (snd (defaultUnaryServerInterceptor deps config keys ctx meth req handler w)) \<noteq> []
       \<and> (\<forall>fs \<in> set (fieldsSince w1
              (snd (defaultUnaryServerInterceptor deps config keys ctx meth req handler w))).
            eventsOf fs = [''recover''] \<and> stacksOf fs = [runtime_Stack deps 4096])"
proof -
  obtain err0 w0 where S: "setCPUUsageHeader deps (headersToContext keys keys ctx) w = (err0, w0)"
    by (cases "setCPUUsageHeader deps (headersToContext keys keys ctx) w")
  with assms have H: "handler (headersToContext keys keys ctx) w0 = (Panic rec, w1)" by simp
  show ?thesis
    unfolding defaultUnaryServerInterceptor_def
    by (cases rec)
       (simp_all add: S H Let_def recovered_def fieldsSince_unaryLogEntries eventsOf_simps
          stacksOf_simps customKeyFields_plain)
qed

lemma stream_panic_fields:
  assumes "handler ctx w = (Panic rec, w1)"
  shows "fieldsSince w1 (snd (defaultStreamServerInterceptor deps config ctx handler w)) \<noteq> []
       \<and> (\<forall>fs \<in> set (fieldsSince w1 (snd (defaultStreamServerInterceptor deps config ctx handler w))).
            eventsOf fs = [''recover''] \<and> stacksOf fs = [runtime_Stack deps 4096])"
  unfolding defaultStreamServerInterceptor_def
  by (cases rec)
     (simp_all add: assms Let_def recovered_def fieldsSince_streamLogEntries eventsOf_simps
        stacksOf_simps)

lemma unary_panic_result:
  assumes "handler (headersToContext keys keys ctx)
             (snd (setCPUUsageHeader deps (headersToContext keys keys ctx) w)) = (Panic rec, w1)"
  shows "fst (defaultUnaryServerInterceptor deps config keys ctx meth req handler w)
           = Return (None, Some (case rec of RecError e \<Rightarrow> e
                                 | RecValue v \<Rightarrow> GoError None (fmt_Sprint_v v)))"
proof -
  obtain err0 w0 where S: "setCPUUsageHeader deps (headersToContext keys keys ctx) w = (err0, w0)"
    by (cases "setCPUUsageHeader deps (headersToContext keys keys ctx) w")
  with assms have H: "handler (headersToContext keys keys ctx) w0 = (Panic rec, w1)" by simp
  show ?thesis
    unfolding defaultUnaryServerInterceptor_def
    by (cases rec)
       (simp_all add: S H Let_def recovered_def fst_unaryLogEntries fmt_Errorf_v_def)
qed

lemma stream_panic_result:
  assumes "handler ctx w = (Panic rec, w1)"
  shows "fst (defaultStreamServerInterceptor deps config ctx handler w)
           = Return (Some (case rec of RecError e \<Rightarrow> e
                           | RecValue v \<Rightarrow> GoError None (fmt_Sprint_v v)))"
  unfolding defaultStreamServerInterceptor_def
  by (cases rec)
     (simp_all add: assms Let_def recovered_def fst_streamLogEntries fmt_Errorf_v_def)

text \<open>
  C2. When the handler of a server call (unary or stream) panics, the interceptor returns
  normally. The returned error is the panic value itself when that is an error, and
  otherwise a plain error whose text is the \<open>%v\<close> rendering of the value. At least
  one entry is written, and every entry written for the call has exactly one event field,
  equal to \<open>recover\<close>, and exactly one stack field, which is not empty.
\<close>

theorem panic_recovered:
  assumes unary: "handler (headersToContext keys keys ctx)
                    (snd (setCPUUsageHeader deps (headersToContext keys keys ctx) w)) = (Panic rec, wu)"
    and stream: "shandler ssctx w = (Panic rec, ws)"
  shows "fst (defaultUnaryServerInterceptor deps config keys ctx meth req handler w)
           = Return (None, Some (case rec of RecError e \<Rightarrow> e
                                 | RecValue v \<Rightarrow> GoError None (fmt_Sprint_v v)))
       \<and> fst (defaultStreamServerInterceptor deps config ssctx shandler w)
           = Return (Some (case rec of RecError e \<Rightarrow> e
                           | RecValue v \<Rightarrow> GoError None (fmt_Sprint_v v)))
       \<and> fieldsSince wu
            (snd (defaultUnaryServerInterceptor deps config keys ctx meth req handler w)) \<noteq> []
       \<and> (\<forall>fs \<in> set (fieldsSince wu
              (snd (defaultUnaryServerInterceptor deps config keys ctx meth req handler w))).
            eventsOf fs = [''recover''] \<and> (\<exists>st. stacksOf fs = [st] \<and> st \<noteq> []))
       \<and> fieldsSince ws (snd (defaultStreamServerInterceptor deps config ssctx shandler w)) \<noteq> []
       \<and> (\<forall>fs \<in> set (fieldsSince ws
              (snd (defaultStreamServerInterceptor deps config ssctx shandler w))).
            eventsOf fs = [''recover''] \<and> (\<exists>st. stacksOf fs = [st] \<and> st \<noteq> []))"
  using unary_panic_result [where handler = handler and keys = keys and ctx = ctx and w = w, OF unary]
    stream_panic_result [where handler = shandler and ctx = ssctx and w = w, OF stream]
    unary_panic_fields [where handler = handler and keys = keys and ctx = ctx and w = w, OF unary]
    stream_panic_fields [where handler = shandler and ctx = ssctx and w = w, OF stream]
    runtime_Stack_not_empty [of deps]
  by simp

theorem panic_recovered_witness:
  "fst (defaultUnaryServerInterceptor sampleDeps sampleConfig [] background ''/svc/M'' None
          (panicking (RecValue (VString ''kaboom'')) 5) world0)
     = Return (None, Some (GoError None ''kaboom''))
   \<and> fst (defaultStreamServerInterceptor sampleDeps sampleConfig background
          (streamPanicking (RecValue (VString ''kaboom'')) 5) world0)
     = Return (Some (GoError None ''kaboom''))
   \<and> map eventsOf (fieldsSince (world0\<lparr>clock := 5\<rparr>)
        (snd (defaultUnaryServerInterceptor sampleDeps sampleConfig [] background ''/svc/M'' None
                (panicking (RecValue (VString ''kaboom'')) 5) world0))) = [[''recover'']]
   \<and> map stacksOf (fieldsSince (world0\<lparr>clock := 5\<rparr>)
        (snd (defaultStreamServerInterceptor sampleDeps sampleConfig background
                (streamPanicking (RecValue (VString ''kaboom'')) 5) world0)))
     = [[''goroutine 1 [running]:'']]"
proof -
  have a: "panicking (RecValue (VString ''kaboom'')) 5 (headersToContext [] [] background)
             (snd (setCPUUsageHeader sampleDeps (headersToContext [] [] background) world0))
           = (Panic (RecValue (VString ''kaboom'')), world0\<lparr>clock := 5\<rparr>)"
    by (simp add: panicking_def world0_def setCPUUsageHeader_def enableCPUUsage_def
        GrpcHeaderValue_def background_def)
  have b: "streamPanicking (RecValue (VString ''kaboom'')) 5 background world0
             = (Panic (RecValue (VString ''kaboom'')), world0\<lparr>clock := 5\<rparr>)"
    by (simp add: streamPanicking_def world0_def)
  have S: "setCPUUsageHeader sampleDeps background world0 = (None, world0)"
    by (simp add: setCPUUsageHeader_def enableCPUUsage_def GrpcHeaderValue_def background_def)
  have H: "panicking (RecValue (VString ''kaboom'')) 5 background world0
             = (Panic (RecValue (VString ''kaboom'')), world0\<lparr>clock := 5\<rparr>)"
    by (simp add: panicking_def world0_def)
  have g: "GrpcToHTTPStatusCode sampleDeps codes_Unknown = 500"
    by (simp add: sampleDeps_def codes_Unknown_def)
  have st: "runtime_Stack sampleDeps 4096 = ''goroutine 1 [running]:''"
    by (simp add: runtime_Stack_def sampleDeps_def)
  have tr: "IsGlobalTracerRegistered sampleDeps = False"
    by (simp add: sampleDeps_def)
  have pn: "getPeerName background = []" "getPeerIP background = []"
    by (simp_all add: getPeerName_def getPeerIP_def GrpcHeaderValue_def background_def)
  have ck: "clock world0 = 0" by (simp add: world0_def)
  have c: "fieldsSince (world0\<lparr>clock := 5\<rparr>)
        (snd (defaultUnaryServerInterceptor sampleDeps sampleConfig [] background ''/svc/M'' None
                (panicking (RecValue (VString ''kaboom'')) 5) world0))
      = [[FieldStack ''goroutine 1 [running]:'', FieldType ''unary'', FieldCode 500,
          FieldOriginCode 2, FieldDescription ''kaboom'', FieldEvent ''recover'',
          FieldMethod ''/svc/M'', FieldCost 5, FieldPeerName [], FieldPeerIP [],
          FieldErr (GoError None ''kaboom'')]]"
    unfolding defaultUnaryServerInterceptor_def
    by (simp add: S H g st tr pn ck Let_def recovered_def fieldsSince_unaryLogEntries
        sampleConfig_def status_Convert_def fmt_Errorf_v_def)
       (simp add: codes_Unknown_def)
  have d: "fieldsSince (world0\<lparr>clock := 5\<rparr>)
        (snd (defaultStreamServerInterceptor sampleDeps sampleConfig background
                (streamPanicking (RecValue (VString ''kaboom'')) 5) world0))
      = [[FieldStack ''goroutine 1 [running]:'', FieldType ''stream'', FieldEvent ''recover'',
          FieldCode 500, FieldOriginCode 2, FieldDescription ''kaboom'', FieldCost 5,
          FieldPeerName [], FieldPeerIP [], FieldErr (GoError None ''kaboom'')]]"
    unfolding defaultStreamServerInterceptor_def
    by (simp add: b g st tr pn ck Let_def recovered_def fieldsSince_streamLogEntries
        sampleConfig_def status_Convert_def fmt_Errorf_v_def)
       (simp add: codes_Unknown_def)
  from panic_recovered [where handler = "panicking (RecValue (VString ''kaboom'')) 5"
      and keys = "[]" and ctx = background and w = world0 and deps = sampleDeps
      and ssctx = background and shandler = "streamPanicking (RecValue (VString ''kaboom'')) 5"
      and config = sampleConfig and meth = "''/svc/M''" and req = None, OF a b]
  show ?thesis
    by (simp add: c d eventsOf_simps stacksOf_simps)
qed

subsection \<open>The CPU usage header\<close>

lemma digit_val: "d < 10 \<Longrightarrow> (of_char (char_of (48 + d :: nat)) :: nat) = 48 + d"
  by simp

lemma digit_not_minus: "d < 10 \<Longrightarrow> char_of (48 + d :: nat) \<noteq> CHR ''-''"
proof
  assume d: "d < 10" and "char_of (48 + d) = CHR ''-''"
  then have "(of_char (char_of (48 + d)) :: nat) = of_char CHR ''-''" by simp
  with d show False by simp
qed

lemma parseNat_snoc: "parseNat (s @ [c]) = 10 * parseNat s + (of_char c - 48)"
  by (simp add: parseNat_def)

lemma parseNat_natToString: "parseNat (natToString n) = n"
proof (induction n rule: natToString.induct)
  case (1 n)
  show ?case
  proof (cases "n < 10")
    case True
    then show ?thesis by (subst natToString.simps) (simp add: parseNat_def)
  next
    case False
    have "n mod 10 < 10" by simp
    then have d: "(of_char (char_of (48 + n mod 10)) :: nat) = 48 + n mod 10"
      by (rule digit_val)
    from False 1 have "parseNat (natToString (n div 10)) = n div 10" by simp
    with False d show ?thesis
      by (subst natToString.simps) (simp add: parseNat_snoc)
  qed
qed

lemma natToString_hd: "\<exists>c cs. natToString n = c # cs \<and> c \<noteq> CHR ''-''"
proof (induction n rule: natToString.induct)
  case (1 n)
  show ?case
  proof (cases "n < 10")
    case True
    then show ?thesis by (subst natToString.simps) (simp add: digit_not_minus)
  next
    case False
    with 1 obtain c cs where "natToString (n div 10) = c # cs" "c \<noteq> CHR ''-''" by auto
    with False show ?thesis by (subst natToString.simps) simp
  qed
qed

lemma decimalValue_Itoa: "decimalValue (strconv_Itoa i) = i"
proof (cases "i < 0")
  case True
  then show ?thesis by (simp add: decimalValue_def strconv_Itoa_def parseNat_natToString)
next
  case False
  obtain c cs where h: "natToString (nat i) = c # cs" "c \<noteq> CHR ''-''"
    using natToString_hd by blast
  have "parseNat (natToString (nat i)) = nat i" by (rule parseNat_natToString)
  with False h show ?thesis by (simp add: decimalValue_def strconv_Itoa_def)
qed

lemma headersToContext_incoming: "incoming (headersToContext reg keys ctx) = incoming ctx"
  by (induction keys arbitrary: ctx) (simp_all add: Let_def transport_WithValue_def GrpcHeaderValue_def)

lemma headersToContext_stream: "stream (headersToContext reg keys ctx) = stream ctx"
  by (induction keys arbitrary: ctx) (simp_all add: Let_def transport_WithValue_def)

lemma GrpcHeaderValue_headersToContext:
  "GrpcHeaderValue (headersToContext reg keys ctx) k = GrpcHeaderValue ctx k"
  by (simp add: GrpcHeaderValue_def headersToContext_incoming)

lemma respHeader_logAt: "respHeader (logAt l m fs w) = respHeader w"
  by (simp add: logAt_def)

lemma respHeader_unaryLogEntries:
  "respHeader (snd (unaryLogEntries config h sl fs res err w1)) = respHeader w1"
  by (cases err) (simp_all add: unaryLogEntries_def Let_def respHeader_logAt)

lemma unary_respHeader:
  "respHeader (snd (defaultUnaryServerInterceptor deps config keys ctx meth req handler w))
     = respHeader (snd (handler (headersToContext keys keys ctx)
                          (snd (setCPUUsageHeader deps (headersToContext keys keys ctx) w))))"
proof -
  obtain err0 w0 where S: "setCPUUsageHeader deps (headersToContext keys keys ctx) w = (err0, w0)"
    by (cases "setCPUUsageHeader deps (headersToContext keys keys ctx) w")
  obtain out w1 where I: "handler (headersToContext keys keys ctx) w0 = (out, w1)"
    by (cases "handler (headersToContext keys keys ctx) w0")
  show ?thesis
  proof (cases out)
    case (Return p)
    obtain r e where p: "p = (r, e)" by (cases p)
    show ?thesis
      unfolding defaultUnaryServerInterceptor_def
      by (simp add: S I Return p Let_def respHeader_unaryLogEntries)
  next
    case (Panic rec)
    show ?thesis
      unfolding defaultUnaryServerInterceptor_def
      by (cases rec) (simp_all add: S I Panic Let_def recovered_def respHeader_unaryLogEntries)
  qed
qed

lemma setCPUUsageHeader_respHeader:
  "respHeader (snd (setCPUUsageHeader deps ctx w))
     = (if enableCPUUsage ctx \<and> 0 < Usage deps \<and> stream ctx \<and> \<not> headerSent w
        then respHeader w @ [(''cpu-usage'', strconv_Itoa (sint (Usage deps)))]
        else respHeader w)"
  by (simp add: setCPUUsageHeader_def grpc_SetHeader_def Let_def respHeader_logAt)

lemma sint_small:
  fixes u :: "64 word"
  assumes "uint u < 2 ^ 63"
  shows "sint u = uint u"
proof -
  have "sint u = signed_take_bit 63 (uint u)" by (simp add: sint_uint)
  also have "\<dots> = uint u"
  proof (rule signed_take_bit_int_eq_self)
    have "0 \<le> uint u" by simp
    moreover have "- (2 ^ 63) \<le> (0::int)" by simp
    ultimately show "- (2 ^ 63) \<le> uint u" by (rule order_trans [rotated])
    show "uint u < 2 ^ 63" by (rule assms)
  qed
  finally show ?thesis .
qed

text \<open>
  C7. The response header after a unary server call is what the handler leaves of the
  header the interceptor prepared. Without the request flag in the incoming carrier the
  interceptor adds nothing; with the flag and a sample of 0 (no sample available) it adds
  nothing; with the flag and a positive sample it adds one \<open>cpu-usage\<close> pair, provided
  the call's transport stream still takes headers. The value is the decimal text of
  \<open>int(stat.Usage)\<close>, which denotes the sample for every sample below \<open>2^63\<close>.
\<close>

theorem cpu_usage_header:
  "respHeader (snd (defaultUnaryServerInterceptor deps config keys ctx meth req handler w))
     = respHeader (snd (handler (headersToContext keys keys ctx)
                          (snd (setCPUUsageHeader deps (headersToContext keys keys ctx) w))))
   \<and> (\<not> enableCPUUsage ctx \<longrightarrow>
        respHeader (snd (setCPUUsageHeader deps (headersToContext keys keys ctx) w)) = respHeader w)
   \<and> (enableCPUUsage ctx \<and> Usage deps = 0 \<longrightarrow>
        respHeader (snd (setCPUUsageHeader deps (headersToContext keys keys ctx) w)) = respHeader w)
   \<and> (enableCPUUsage ctx \<and> 0 < Usage deps \<and> stream ctx \<and> \<not> headerSent w \<longrightarrow>
        respHeader (snd (setCPUUsageHeader deps (headersToContext keys keys ctx) w))
          = respHeader w @ [(''cpu-usage'', strconv_Itoa (sint (Usage deps)))]
        \<and> decimalValue (strconv_Itoa (sint (Usage deps))) = sint (Usage deps)
        \<and> (uint (Usage deps) < 2 ^ 63 \<longrightarrow> sint (Usage deps) = uint (Usage deps)))"
proof -
  have e: "enableCPUUsage (headersToContext keys keys ctx) = enableCPUUsage ctx"
    by (simp add: enableCPUUsage_def GrpcHeaderValue_headersToContext)
  show ?thesis
    by (simp add: unary_respHeader setCPUUsageHeader_respHeader e headersToContext_stream
        decimalValue_Itoa sint_small)
qed

theorem cpu_usage_header_witness:
  "respHeader (snd (defaultUnaryServerInterceptor sampleDeps sampleConfig [] flagged ''/svc/M''
       None (returning None None 5) world0)) = [(''cpu-usage'', ''250'')]
   \<and> decimalValue ''250'' = 250
   \<and> respHeader (snd (defaultUnaryServerInterceptor (sampleDeps\<lparr>Usage := 0\<rparr>) sampleConfig []
       flagged ''/svc/M'' None (returning None None 5) world0)) = []
   \<and> respHeader (snd (defaultUnaryServerInterceptor sampleDeps sampleConfig []
       (background\<lparr>stream := True\<rparr>) ''/svc/M'' None (returning None None 5) world0)) = []"
proof -
  have f: "enableCPUUsage flagged" by code_simp
  have n: "\<not> enableCPUUsage (background\<lparr>stream := True\<rparr>)" by code_simp
  have i: "strconv_Itoa 250 = ''250''" by code_simp
  have u: "Usage sampleDeps = 250" by (simp add: sampleDeps_def)
  have s: "stream flagged" by (simp add: flagged_def)
  have h: "\<not> headerSent world0" "respHeader world0 = []" by (simp_all add: world0_def)
  have r: "\<And>c w. respHeader (snd (returning None None 5 c w)) = respHeader w"
    by (simp add: returning_def)
  from cpu_usage_header [of sampleDeps sampleConfig "[]" flagged "''/svc/M''" None
      "returning None None 5" world0]
    cpu_usage_header [of "sampleDeps\<lparr>Usage := 0\<rparr>" sampleConfig "[]" flagged "''/svc/M''" None
      "returning None None 5" world0]
    cpu_usage_header [of sampleDeps sampleConfig "[]" "background\<lparr>stream := True\<rparr>"
      "''/svc/M''" None "returning None None 5" world0]
  show ?thesis
    by (simp add: f n i u s h r)
qed

subsection \<open>Propagation of the registered custom keys\<close>


















subsection \<open>Which entries a call gets\<close>

lemma kept_clientLogEntries:
  "take (length (logs w1)) (logs (snd (clientLogEntries config h cost fs res err w1))) = logs w1"
  by (cases err) (simp_all add: clientLogEntries_def Let_def logAt_def)

lemma kept_streamLogEntries:
  "take (length (logs w1)) (logs (snd (streamLogEntries config h cost fs err w1))) = logs w1"
  by (cases err) (simp_all add: streamLogEntries_def Let_def logAt_def)

lemma kept_unaryLogEntries:
  "take (length (logs w1)) (logs (snd (unaryLogEntries config h sl fs res err w1))) = logs w1"
  by (cases err) (simp_all add: unaryLogEntries_def Let_def logAt_def)

lemma client_logger_keeps:
  assumes "invoker (snd (loggerKeysLoop keys keys [] ctx)) w = (Return (res, err), w1)"
  shows "take (length (logs w1))
           (logs (snd (loggerUnaryClientInterceptor deps config keys ctx meth req target invoker w)))
         = logs w1"
proof -
  obtain fields0 ctx1 where L: "loggerKeysLoop keys keys [] ctx = (fields0, ctx1)"
    by (cases "loggerKeysLoop keys keys [] ctx")
  with assms have I: "invoker ctx1 w = (Return (res, err), w1)" by simp
  show ?thesis
    unfolding loggerUnaryClientInterceptor_def
    by (simp add: L I Let_def kept_clientLogEntries split del: if_split)
qed

lemma stream_server_keeps:
  assumes "handler ctx w = (out, w1)"
  shows "take (length (logs w1))
           (logs (snd (defaultStreamServerInterceptor deps config ctx handler w))) = logs w1"
proof (cases out)
  case (Return e)
  show ?thesis
    unfolding defaultStreamServerInterceptor_def
    by (simp add: assms Return Let_def kept_streamLogEntries split del: if_split)
next
  case (Panic rec)
  show ?thesis
    unfolding defaultStreamServerInterceptor_def
    by (simp add: assms Panic Let_def recovered_def kept_streamLogEntries split del: if_split)
qed

lemma unary_server_keeps:
  assumes "handler (headersToContext keys keys ctx)
             (snd (setCPUUsageHeader deps (headersToContext keys keys ctx) w)) = (out, w1)"
  shows "take (length (logs w1))
           (logs (snd (defaultUnaryServerInterceptor deps config keys ctx meth req handler w)))
         = logs w1"
proof -
  obtain err0 w0 where S: "setCPUUsageHeader deps (headersToContext keys keys ctx) w = (err0, w0)"
    by (cases "setCPUUsageHeader deps (headersToContext keys keys ctx) w")
  with assms have H: "handler (headersToContext keys keys ctx) w0 = (out, w1)" by simp
  show ?thesis
  proof (cases out)
    case (Return p)
    obtain r e where p: "p = (r, e)" by (cases p)
    show ?thesis
      unfolding defaultUnaryServerInterceptor_def
      by (simp add: S H Return p Let_def kept_unaryLogEntries)
  next
    case (Panic rec)
    show ?thesis
      unfolding defaultUnaryServerInterceptor_def
      by (cases rec) (simp_all add: S H Panic Let_def recovered_def kept_unaryLogEntries)
  qed
qed

lemma setCPUUsageHeader_logs:
  "logs (snd (setCPUUsageHeader deps ctx w))
     = logs w @
       (if enableCPUUsage ctx \<and> 0 < Usage deps \<and> (\<not> stream ctx \<or> headerSent w)
        then [\<lparr>level = ErrorLevel, msg = ''set header error'',
               entryFields = [FieldErr (if stream ctx then ErrIllegalHeaderWrite
                                        else errNoStream deps ctx)]\<rparr>]
        else [])"
  by (simp add: setCPUUsageHeader_def grpc_SetHeader_def Let_def logAt_def)

lemma logs_split:
  assumes "take (length (logs w1)) (logs w2) = logs w1"
  shows "map (\<lambda>en. (level en, msg en)) (logs w2)
           = map (\<lambda>en. (level en, msg en)) (logs w1) @ emittedSince w1 w2"
proof -
  have "logs w2 = take (length (logs w1)) (logs w2) @ drop (length (logs w1)) (logs w2)"
    by simp
  with assms have "logs w2 = logs w1 @ drop (length (logs w1)) (logs w2)" by simp
  then have "map (\<lambda>en. (level en, msg en)) (logs w2)
               = map (\<lambda>en. (level en, msg en)) (logs w1 @ drop (length (logs w1)) (logs w2))"
    by simp
  then show ?thesis by (simp add: emittedSince_def)
qed

text \<open>
  C1, as stated, fails: a client call that is slow and returns an error gets two entries,
  the \<open>slow\<close> warning and the \<open>access\<close> entry. (Threshold 100, cost 150, the call
  fails with a plain error.)
\<close>

theorem double_entry_counterexample:
  "fst (loggerUnaryClientInterceptor sampleDeps sampleConfig [] background ''/svc/M'' None
          ''addr'' (returning None (Some boom) 150) world0) = Return (None, Some boom)
   \<and> slowCall sampleConfig 150
   \<and> map (\<lambda>en. (level en, msg en))
        (logs (snd (loggerUnaryClientInterceptor sampleDeps sampleConfig [] background ''/svc/M''
                      None ''addr'' (returning None (Some boom) 150) world0)))
      = [(WarnLevel, ''slow''), (ErrorLevel, ''access'')]"
  by (simp add: loggerUnaryClientInterceptor_def clientLogEntries_def returning_def world0_def
      sampleConfig_def sampleDeps_def boom_def status_Convert_def codes_Unknown_def logAt_def
      slowCall_def StatusInternalServerError_def Let_def)

text \<open>
  C1, amended. After the next stage has returned (or, on the server, panicked) the logger
  interceptor leaves the earlier entries in place and writes, in this order, one
  \<open>slow\<close> entry at warning severity exactly when the call is slow, and one
  \<open>access\<close> entry exactly when the call returned an error or access logging is
  enabled: at error or warning severity for an error, at info severity otherwise. So a
  call whose emission predicate holds gets at least one and at most two of these entries,
  and two when it is slow and also failed or access-logged. Before it calls the handler,
  the unary server interceptor writes one more entry, \<open>set header error\<close> at error
  severity, exactly when the CPU usage header is requested with a positive sample and
  cannot be set. For the stream server interceptor the entries are stated for the calls
  that failed or are access-logged.
\<close>

theorem entries_per_call:
  assumes client: "invoker (snd (loggerKeysLoop keys keys [] ctx)) w = (Return (res, err), wc)"
    and unary: "handler (headersToContext keys keys sctx)
                  (snd (setCPUUsageHeader deps (headersToContext keys keys sctx) w)) = (out, wu)"
    and stream: "shandler ssctx w = (sout, ws)"
  shows "take (length (logs wc))
           (logs (snd (loggerUnaryClientInterceptor deps config keys ctx meth req target invoker w)))
         = logs wc
       \<and> emittedSince wc
           (snd (loggerUnaryClientInterceptor deps config keys ctx meth req target invoker w))
         = (if slowCall config (clock wc - clock w) then [(WarnLevel, ''slow'')] else [])
           @ (case err of
                Some e \<Rightarrow>
                  [(if GrpcToHTTPStatusCode deps (fst (status_Convert err)) \<ge> 500
                    then ErrorLevel else WarnLevel, ''access'')]
              | None \<Rightarrow> if EnableAccessInterceptor config then [(InfoLevel, ''access'')] else [])
       \<and> logs (snd (setCPUUsageHeader deps (headersToContext keys keys sctx) w))
         = logs w @
           (if enableCPUUsage sctx \<and> 0 < Usage deps \<and> (\<not> stream sctx \<or> headerSent w)
            then [\<lparr>level = ErrorLevel, msg = ''set header error'',
                   entryFields = [FieldErr (if stream sctx then ErrIllegalHeaderWrite
                                            else errNoStream deps (headersToContext keys keys sctx))]\<rparr>]
            else [])
       \<and> take (length (logs wu))
           (logs (snd (defaultUnaryServerInterceptor deps config keys sctx meth req handler w)))
         = logs wu
       \<and> emittedSince wu
           (snd (defaultUnaryServerInterceptor deps config keys sctx meth req handler w))
         = (if slowCall config (clock wu - clock w) then [(WarnLevel, ''slow'')] else [])
           @ (case unaryError deps out of
                Some e \<Rightarrow>
                  [(if GrpcToHTTPStatusCode deps (fst (status_Convert (unaryError deps out))) \<ge> 500
                    then ErrorLevel else WarnLevel, ''access'')]
              | None \<Rightarrow> if EnableAccessInterceptor config then [(InfoLevel, ''access'')] else [])
       \<and> take (length (logs ws))
           (logs (snd (defaultStreamServerInterceptor deps config ssctx shandler w)))
         = logs ws
       \<and> (streamError deps sout \<noteq> None \<or> EnableAccessInterceptor config \<longrightarrow>
            emittedSince ws (snd (defaultStreamServerInterceptor deps config ssctx shandler w))
            = (if slowCall config (clock ws - clock w) then [(WarnLevel, ''slow'')] else [])
              @ (case streamError deps sout of
                   Some e \<Rightarrow>
                     [(if GrpcToHTTPStatusCode deps (fst (status_Convert (streamError deps sout))) \<ge> 500
                       then ErrorLevel else WarnLevel, ''access'')]
                 | None \<Rightarrow> [(InfoLevel, ''access'')]))
       \<and> (err \<noteq> None \<or> EnableAccessInterceptor config \<or> slowCall config (clock wc - clock w) \<longrightarrow>
            1 \<le> length (emittedSince wc
                   (snd (loggerUnaryClientInterceptor deps config keys ctx meth req target invoker w)))
            \<and> length (emittedSince wc
                   (snd (loggerUnaryClientInterceptor deps config keys ctx meth req target invoker w)))
               \<le> 2)
       \<and> (unaryError deps out \<noteq> None \<or> EnableAccessInterceptor config
            \<or> slowCall config (clock wu - clock w) \<longrightarrow>
            1 \<le> length (emittedSince wu
                   (snd (defaultUnaryServerInterceptor deps config keys sctx meth req handler w)))
            \<and> length (emittedSince wu
                   (snd (defaultUnaryServerInterceptor deps config keys sctx meth req handler w)))
               \<le> 2)"
proof -
  note c = client_logger_entries [where invoker = invoker and keys = keys and ctx = ctx
      and w = w, OF client]
  note u = unary_server_entries [where handler = handler and keys = keys and ctx = sctx
      and w = w, OF unary]
  note s = stream_server_entries [where handler = shandler and ctx = ssctx and w = w, OF stream]
  have e: "enableCPUUsage (headersToContext keys keys sctx) = enableCPUUsage sctx"
    by (simp add: enableCPUUsage_def GrpcHeaderValue_headersToContext)
  show ?thesis
  proof (intro conjI)
    show "take (length (logs wc))
           (logs (snd (loggerUnaryClientInterceptor deps config keys ctx meth req target invoker w)))
         = logs wc"
      using client by (rule client_logger_keeps)
    show "emittedSince wc
           (snd (loggerUnaryClientInterceptor deps config keys ctx meth req target invoker w))
         = (if slowCall config (clock wc - clock w) then [(WarnLevel, ''slow'')] else [])
           @ (case err of
                Some e \<Rightarrow>
                  [(if GrpcToHTTPStatusCode deps (fst (status_Convert err)) \<ge> 500
                    then ErrorLevel else WarnLevel, ''access'')]
              | None \<Rightarrow> if EnableAccessInterceptor config then [(InfoLevel, ''access'')] else [])"
      by (simp add: c slowEntry_def accessEntry_def severity_def split: option.splits)
    show "logs (snd (setCPUUsageHeader deps (headersToContext keys keys sctx) w))
         = logs w @
           (if enableCPUUsage sctx \<and> 0 < Usage deps \<and> (\<not> stream sctx \<or> headerSent w)
            then [\<lparr>level = ErrorLevel, msg = ''set header error'',
                   entryFields = [FieldErr (if stream sctx then ErrIllegalHeaderWrite
                                            else errNoStream deps (headersToContext keys keys sctx))]\<rparr>]
            else [])"
      by (simp only: setCPUUsageHeader_logs e headersToContext_stream)
    show "take (length (logs wu))
           (logs (snd (defaultUnaryServerInterceptor deps config keys sctx meth req handler w)))
         = logs wu"
      using unary by (rule unary_server_keeps)
    show "emittedSince wu
           (snd (defaultUnaryServerInterceptor deps config keys sctx meth req handler w))
         = (if slowCall config (clock wu - clock w) then [(WarnLevel, ''slow'')] else [])
           @ (case unaryError deps out of
                Some e \<Rightarrow>
                  [(if GrpcToHTTPStatusCode deps (fst (status_Convert (unaryError deps out))) \<ge> 500
                    then ErrorLevel else WarnLevel, ''access'')]
              | None \<Rightarrow> if EnableAccessInterceptor config then [(InfoLevel, ''access'')] else [])"
      by (simp add: u slowEntry_def accessEntry_def severity_def split: option.splits)
    show "take (length (logs ws))
           (logs (snd (defaultStreamServerInterceptor deps config ssctx shandler w)))
         = logs ws"
      using stream by (rule stream_server_keeps)
    show "streamError deps sout \<noteq> None \<or> EnableAccessInterceptor config \<longrightarrow>
            emittedSince ws (snd (defaultStreamServerInterceptor deps config ssctx shandler w))
            = (if slowCall config (clock ws - clock w) then [(WarnLevel, ''slow'')] else [])
              @ (case streamError deps sout of
                   Some e \<Rightarrow>
                     [(if GrpcToHTTPStatusCode deps (fst (status_Convert (streamError deps sout))) \<ge> 500
                       then ErrorLevel else WarnLevel, ''access'')]
                 | None \<Rightarrow> [(InfoLevel, ''access'')])"
      by (simp add: s slowEntry_def accessEntry_def severity_def split: option.splits)
    show "err \<noteq> None \<or> EnableAccessInterceptor config \<or> slowCall config (clock wc - clock w) \<longrightarrow>
            1 \<le> length (emittedSince wc
                   (snd (loggerUnaryClientInterceptor deps config keys ctx meth req target invoker w)))
            \<and> length (emittedSince wc
                   (snd (loggerUnaryClientInterceptor deps config keys ctx meth req target invoker w)))
               \<le> 2"
      by (cases err) (simp_all add: c slowEntry_def accessEntry_def)
    show "unaryError deps out \<noteq> None \<or> EnableAccessInterceptor config
            \<or> slowCall config (clock wu - clock w) \<longrightarrow>
            1 \<le> length (emittedSince wu
                   (snd (defaultUnaryServerInterceptor deps config keys sctx meth req handler w)))
            \<and> length (emittedSince wu
                   (snd (defaultUnaryServerInterceptor deps config keys sctx meth req handler w)))
               \<le> 2"
      by (cases "unaryError deps out") (simp_all add: u slowEntry_def accessEntry_def)
  qed
qed

theorem entries_per_call_witness:
  "map (\<lambda>en. (level en, msg en))
     (logs (snd (loggerUnaryClientInterceptor sampleDeps sampleConfig [] background ''/svc/M'' None
                   ''addr'' (returning None (Some boom) 150) world0)))
     = [(WarnLevel, ''slow''), (ErrorLevel, ''access'')]
   \<and> map (\<lambda>en. (level en, msg en))
     (logs (snd (defaultUnaryServerInterceptor sampleDeps sampleConfig []
                   (flagged\<lparr>stream := False\<rparr>) ''/svc/M'' None
                   (returning None (Some boom) 150) world0)))
     = [(ErrorLevel, ''set header error''), (WarnLevel, ''slow''), (ErrorLevel, ''access'')]
   \<and> map (\<lambda>en. (level en, msg en))
     (logs (snd (defaultStreamServerInterceptor sampleDeps sampleConfig background
                   (streamReturning (Some boom) 50) world0)))
     = [(ErrorLevel, ''access'')]"
proof -
  let ?sctx = "flagged\<lparr>stream := False\<rparr>"
  let ?w0 = "snd (setCPUUsageHeader sampleDeps (headersToContext [] [] ?sctx) world0)"
  have f: "enableCPUUsage ?sctx" by code_simp
  have us: "0 < Usage sampleDeps" by (simp add: sampleDeps_def)
  have ns: "\<not> stream ?sctx" by simp
  have l0: "logs world0 = []" and k0: "clock world0 = 0" by (simp_all add: world0_def)
  have g: "GrpcToHTTPStatusCode sampleDeps (fst (status_Convert (Some boom))) = 500"
    by (simp add: sampleDeps_def status_Convert_def boom_def codes_Unknown_def)
  have sl: "slowCall sampleConfig 150" "\<not> slowCall sampleConfig 50"
    by (simp_all add: slowCall_def sampleConfig_def)
  have ck: "clock ?w0 = 0"
    by (simp add: setCPUUsageHeader_def grpc_SetHeader_def Let_def logAt_def k0)
  have a: "returning None (Some boom) 150 (snd (loggerKeysLoop [] [] [] background)) world0
             = (Return (None, Some boom), world0\<lparr>clock := 150\<rparr>)"
    by (simp add: returning_def k0)
  have b: "returning None (Some boom) 150 (headersToContext [] [] ?sctx) ?w0
             = (Return (None, Some boom), ?w0\<lparr>clock := 150\<rparr>)"
    by (simp add: returning_def ck del: headersToContext.simps)
  have c: "streamReturning (Some boom) 50 background world0
             = (Return (Some boom), world0\<lparr>clock := 50\<rparr>)"
    by (simp add: streamReturning_def k0)
  note t = entries_per_call [where invoker = "returning None (Some boom) 150" and keys = "[]"
      and ctx = background and w = world0 and deps = sampleDeps and sctx = ?sctx
      and handler = "returning None (Some boom) 150" and ssctx = background
      and shandler = "streamReturning (Some boom) 50"
      and config = sampleConfig and meth = "''/svc/M''" and req = None and target = "''addr''",
      OF a b c]
  let ?C = "snd (loggerUnaryClientInterceptor sampleDeps sampleConfig [] background ''/svc/M'' None
                   ''addr'' (returning None (Some boom) 150) world0)"
  let ?U = "snd (defaultUnaryServerInterceptor sampleDeps sampleConfig [] ?sctx ''/svc/M'' None
                   (returning None (Some boom) 150) world0)"
  let ?S = "snd (defaultStreamServerInterceptor sampleDeps sampleConfig background
                   (streamReturning (Some boom) 50) world0)"
  from t have kc: "take (length (logs (world0\<lparr>clock := 150\<rparr>))) (logs ?C) = logs (world0\<lparr>clock := 150\<rparr>)"
    by blast
  from t have ec: "emittedSince (world0\<lparr>clock := 150\<rparr>) ?C = [(WarnLevel, ''slow''), (ErrorLevel, ''access'')]"
    by (simp add: sl g k0)
  from t have l: "map (\<lambda>en. (level en, msg en)) (logs ?w0) = [(ErrorLevel, ''set header error'')]"
    by (simp add: f us l0 del: headersToContext.simps)
  from t have ku: "take (length (logs (?w0\<lparr>clock := 150\<rparr>))) (logs ?U) = logs (?w0\<lparr>clock := 150\<rparr>)"
    by blast
  from t have eu: "emittedSince (?w0\<lparr>clock := 150\<rparr>) ?U = [(WarnLevel, ''slow''), (ErrorLevel, ''access'')]"
    by (simp add: sl g k0 unaryError_def del: headersToContext.simps)
  from t have ks: "take (length (logs (world0\<lparr>clock := 50\<rparr>))) (logs ?S) = logs (world0\<lparr>clock := 50\<rparr>)"
    by blast
  from t have es: "emittedSince (world0\<lparr>clock := 50\<rparr>) ?S = [(ErrorLevel, ''access'')]"
    by (simp add: sl g k0 streamError_def)
  show ?thesis
    using logs_split [OF kc] logs_split [OF ku] logs_split [OF ks] ec eu es l
    by (simp add: l0 del: headersToContext.simps)
qed

end
